theory Spec2Isabelle
  imports Complex_Main
begin

section \<open>The translation-server process manager (src/server-manager.ts)\<close>

text \<open>
  The manager talks to four things outside itself: the file system (the pid file and the
  log file), the process table (\<^verbatim>\<open>process.kill\<close>, \<^verbatim>\<open>spawn\<close>), the network
  (\<^verbatim>\<open>fetch\<close>) and the clock (\<^verbatim>\<open>Date.now\<close>, \<^verbatim>\<open>setTimeout\<close>). The model
  threads a \<open>world\<close> through every call. What the outside answers is not decided by the
  program, so it is read from a \<open>host\<close>: the answer to the \<open>n\<close>-th interaction of a run
  is a function of \<open>n\<close>, and every theorem holds for every host. The text of the files is
  program state: only the manager's own calls change it (the single-writer assumption of
  the design).
\<close>

subsection \<open>Values\<close>

text \<open>A JavaScript number, as far as \<^verbatim>\<open>Number.isInteger\<close> and \<^verbatim>\<open><=\<close> can tell.\<close>

datatype number = NaN | Infinity bool | Num rat

fun isInteger :: "number \<Rightarrow> bool" where
  "isInteger (Num q) = (q = of_int \<lfloor>q\<rfloor>)"
| "isInteger _ = False"

text \<open>\<^verbatim>\<open>n <= 0\<close>: false on NaN, true on \<^verbatim>\<open>-Infinity\<close> (\<open>Infinity True\<close> is the negative one).\<close>

fun le_zero :: "number \<Rightarrow> bool" where
  "le_zero (Num q) = (q \<le> 0)"
| "le_zero (Infinity neg) = neg"
| "le_zero NaN = False"

fun to_int :: "number \<Rightarrow> int" where
  "to_int (Num q) = \<lfloor>q\<rfloor>"
| "to_int _ = 0"

datatype signal = Sig0 | SIGTERM | SIGKILL

datatype fetch_result = Response int | NetworkError | Aborted

text \<open>
  What \<^verbatim>\<open>child_process.spawn\<close> does: it starts a process and the child has a pid; or it
  throws at once, for arguments it refuses; or the command cannot be started, the child it
  returns has no pid (\<^verbatim>\<open>child.pid\<close> is \<^verbatim>\<open>undefined\<close>) and an \<^verbatim>\<open>'error'\<close> event is queued for
  the child.
\<close>

datatype spawn_result = Spawned int | SpawnThrows | SpawnErrorEvent

text \<open>Every \<^verbatim>\<open>throw\<close> of the module and every exception that can cross it.\<close>

datatype error =
    InvalidURL                  \<comment> \<open>\<^verbatim>\<open>new URL(serverUrl)\<close> threw\<close>
  | NotLocalhost string         \<comment> \<open>"Server management only supports localhost URLs. Got host: ..."\<close>
  | SourcePathEmpty             \<comment> \<open>"serverManagement.sourcePath is empty. ..."\<close>
  | EntryNotFound string        \<comment> \<open>"Translation Server entry not found at ..."\<close>
  | ExitedEarly string          \<comment> \<open>"Translation Server process exited early. Check logs at ..."\<close>
  | NotReadyWithin int          \<comment> \<open>"Translation Server did not become ready within ...ms"\<close>
  | UnreachableAndDisabled      \<comment> \<open>"Translation Server is unreachable and serverManagement.enabled is false."\<close>
  | IOFailure string            \<comment> \<open>a file-system call rejected with this \<^verbatim>\<open>code\<close>\<close>
  | KillFailed int signal       \<comment> \<open>\<^verbatim>\<open>process.kill\<close> threw (no such process, or not permitted)\<close>
  | FetchFailed fetch_result    \<comment> \<open>\<^verbatim>\<open>fetch\<close> rejected\<close>
  | SpawnThrew                  \<comment> \<open>\<^verbatim>\<open>spawn\<close> threw (arguments it refuses)\<close>
  | UnhandledChildError         \<comment> \<open>the child's \<^verbatim>\<open>'error'\<close> event, which has no listener\<close>

text \<open>
  A promise has settled with a value, settled with an exception, or (for the two polling
  loops, which are given a bound on their number of iterations) has not settled yet.
\<close>

datatype 'a outcome = Return 'a | Throw error | Pending

datatype effect =
    HttpGet string int                          \<comment> \<open>url, abort timer in ms\<close>
  | Kill int signal
  | Spawn string "string list" string string    \<comment> \<open>command, arguments, cwd, NODE_ENV\<close>
  | Mkdir string
  | OpenAppend string
  | WriteFile string string
  | Unlink string

record ServerManagementConfig =
  enabled :: bool
  autoStart :: bool
  sourcePath :: string
  nodeCommand :: string
  pidFile :: string
  logFile :: string
  startupTimeoutMs :: int
  pollIntervalMs :: int

datatype process_state = Running | Stopped | Missing

record NodeServerStatus =
  reachable :: bool
  pid :: "int option"
  process :: process_state

subsection \<open>The host and the world\<close>

text \<open>
  The first seven fields are the built-ins of the runtime that the module calls and that
  are not code of this repository (\<^verbatim>\<open>String.prototype.trim\<close>, \<^verbatim>\<open>Number\<close>,
  \<^verbatim>\<open>new URL(..).hostname\<close>, \<^verbatim>\<open>path.resolve/join/dirname\<close>, \<^verbatim>\<open>process.env.NODE_ENV\<close>).
  The last six are the answers of the outside world, indexed by the number of interactions
  made so far.
\<close>

record host =
  js_trim :: "string \<Rightarrow> string"
  js_Number :: "string \<Rightarrow> number"
  url_hostname :: "string \<Rightarrow> string option"
  path_resolve :: "string \<Rightarrow> string"
  path_join :: "string list \<Rightarrow> string"
  path_dirname :: "string \<Rightarrow> string"
  node_env :: "string option"
  fetch_outcome :: "nat \<Rightarrow> string \<Rightarrow> int \<Rightarrow> fetch_result"
  process_exists :: "nat \<Rightarrow> int \<Rightarrow> bool"
  date_now :: "nat \<Rightarrow> int"
  fs_fault :: "nat \<Rightarrow> string option"
  spawn_outcome :: "nat \<Rightarrow> spawn_result"
  interrupted_write :: "nat \<Rightarrow> string option"

record world =
  tick :: nat
  files :: "string \<rightharpoonup> string"
  effects :: "effect list"

type_synonym 'a io = "world \<Rightarrow> 'a outcome \<times> world"

definition ret :: "'a \<Rightarrow> 'a io" where
  "ret x w = (Return x, w)"

definition throw :: "error \<Rightarrow> 'a io" where
  "throw e w = (Throw e, w)"

definition pending :: "'a io" where
  "pending w = (Pending, w)"

text \<open>\<^verbatim>\<open>const x = await m; ...\<close>\<close>

definition andThen :: "'a io \<Rightarrow> ('a \<Rightarrow> 'b io) \<Rightarrow> 'b io" where
  "andThen m f w =
     (case m w of
        (Return x, w') \<Rightarrow> f x w'
      | (Throw e, w') \<Rightarrow> (Throw e, w')
      | (Pending, w') \<Rightarrow> (Pending, w'))"

text \<open>\<^verbatim>\<open>try { m; return onOk } catch { return onErr }\<close>\<close>

definition tryCatch :: "'a io \<Rightarrow> ('a \<Rightarrow> 'b) \<Rightarrow> 'b \<Rightarrow> 'b io" where
  "tryCatch m onOk onErr w =
     (case m w of
        (Return x, w') \<Rightarrow> (Return (onOk x), w')
      | (Throw e, w') \<Rightarrow> (Return onErr, w')
      | (Pending, w') \<Rightarrow> (Pending, w'))"

definition step :: "world \<Rightarrow> world" where
  "step w = w\<lparr>tick := Suc (tick w)\<rparr>"

definition emit :: "effect \<Rightarrow> world \<Rightarrow> world" where
  "emit e w = w\<lparr>tick := Suc (tick w), effects := effects w @ [e]\<rparr>"

subsection \<open>System calls\<close>

text \<open>
  Every call advances \<open>tick\<close>. The calls that act on the outside (a request, a signal, a
  spawn, a change of the file system) are also appended to \<open>effects\<close>; a signal is
  recorded whether or not it could be delivered. \<open>fs_fault h n = Some code\<close> says that the
  file-system call made at interaction \<open>n\<close> fails with that error code; without a fault a
  call fails only with \<^verbatim>\<open>ENOENT\<close>, when the file is absent. \<open>process_exists h n p\<close> says that
  \<^verbatim>\<open>process.kill(p, ...)\<close> made at interaction \<open>n\<close> does not throw.
\<close>

definition Date_now :: "host \<Rightarrow> int io" where
  "Date_now h w = (Return (date_now h (tick w)), step w)"

definition sleep :: "int \<Rightarrow> unit io" where
  "sleep ms w = (Return (), step w)"

definition fetch :: "host \<Rightarrow> string \<Rightarrow> int \<Rightarrow> int io" where
  "fetch h url timeoutMs w =
     (case fetch_outcome h (tick w) url timeoutMs of
        Response code \<Rightarrow> (Return code, emit (HttpGet url timeoutMs) w)
      | failure \<Rightarrow> (Throw (FetchFailed failure), emit (HttpGet url timeoutMs) w))"

definition process_kill :: "host \<Rightarrow> int \<Rightarrow> signal \<Rightarrow> unit io" where
  "process_kill h p sig w =
     (if process_exists h (tick w) p then (Return (), emit (Kill p sig) w)
      else (Throw (KillFailed p sig), emit (Kill p sig) w))"

definition readFile :: "host \<Rightarrow> string \<Rightarrow> string io" where
  "readFile h path w =
     (case fs_fault h (tick w) of
        Some code \<Rightarrow> (Throw (IOFailure code), step w)
      | None \<Rightarrow>
          (case files w path of
             None \<Rightarrow> (Throw (IOFailure ''ENOENT''), step w)
           | Some text \<Rightarrow> (Return text, step w)))"

definition unlink :: "host \<Rightarrow> string \<Rightarrow> unit io" where
  "unlink h path w =
     (case fs_fault h (tick w) of
        Some code \<Rightarrow> (Throw (IOFailure code), step w)
      | None \<Rightarrow>
          (case files w path of
             None \<Rightarrow> (Throw (IOFailure ''ENOENT''), step w)
           | Some text \<Rightarrow> (Return (), emit (Unlink path) (w\<lparr>files := (files w)(path := None)\<rparr>))))"

definition access :: "host \<Rightarrow> string \<Rightarrow> unit io" where
  "access h path w =
     (case fs_fault h (tick w) of
        Some code \<Rightarrow> (Throw (IOFailure code), step w)
      | None \<Rightarrow>
          (case files w path of
             None \<Rightarrow> (Throw (IOFailure ''ENOENT''), step w)
           | Some text \<Rightarrow> (Return (), step w)))"

definition mkdir_recursive :: "host \<Rightarrow> string \<Rightarrow> unit io" where
  "mkdir_recursive h path w =
     (case fs_fault h (tick w) of
        Some code \<Rightarrow> (Throw (IOFailure code), step w)
      | None \<Rightarrow> (Return (), emit (Mkdir path) w))"

text \<open>\<^verbatim>\<open>fs.openSync(path, 'a')\<close> creates the file when it is absent and keeps its text otherwise.\<close>

definition openSync_append :: "host \<Rightarrow> string \<Rightarrow> unit io" where
  "openSync_append h path w =
     (case fs_fault h (tick w) of
        Some code \<Rightarrow> (Throw (IOFailure code), step w)
      | None \<Rightarrow>
          (Return (),
           emit (OpenAppend path)
             (w\<lparr>files := (files w)(path \<mapsto> (case files w path of None \<Rightarrow> [] | Some text \<Rightarrow> text))\<rparr>)))"

definition writeFile :: "host \<Rightarrow> string \<Rightarrow> string \<Rightarrow> unit io" where
  "writeFile h path text w =
     (case fs_fault h (tick w) of
        Some code \<Rightarrow> (Throw (IOFailure code), step w)
      | None \<Rightarrow> (Return (), emit (WriteFile path text) (w\<lparr>files := (files w)(path \<mapsto> text)\<rparr>)))"

text \<open>
  The value is \<^verbatim>\<open>child.pid\<close>: \<open>None\<close> is \<^verbatim>\<open>undefined\<close>, the pid of a child whose command could
  not be started.
\<close>

definition spawn :: "host \<Rightarrow> string \<Rightarrow> string list \<Rightarrow> string \<Rightarrow> string \<Rightarrow> int option io" where
  "spawn h command args cwd nodeEnv w =
     (case spawn_outcome h (tick w) of
        Spawned p \<Rightarrow> (Return (Some p), emit (Spawn command args cwd nodeEnv) w)
      | SpawnThrows \<Rightarrow> (Throw SpawnThrew, step w)
      | SpawnErrorEvent \<Rightarrow> (Return None, emit (Spawn command args cwd nodeEnv) w))"

text \<open>
  The first \<^verbatim>\<open>await\<close> after a spawn. The \<^verbatim>\<open>'error'\<close> event of a child that could not be
  started is delivered when the caller next yields to the event loop. The module attaches
  no listener to the child (lines 117 to 127) and the program installs no handler for
  uncaught exceptions, so the event ends the Node process there: the call being awaited
  has been begun and nothing after it runs. What the begun write has done to its file by
  then (nothing, the file created or emptied) is the host's to say.
\<close>

definition await_after_spawn :: "host \<Rightarrow> int option \<Rightarrow> string \<Rightarrow> unit io \<Rightarrow> unit io" where
  "await_after_spawn h child path m w =
     (case child of
        Some p \<Rightarrow> m w
      | None \<Rightarrow>
          (Throw UnhandledChildError,
           step (w\<lparr>files := (files w)(path := interrupted_write h (tick w))\<rparr>)))"

subsection \<open>Text of a number\<close>

fun digits :: "nat \<Rightarrow> string" where
  "digits n =
     (if n < 10 then [''0123456789'' ! n]
      else digits (n div 10) @ [''0123456789'' ! (n mod 10)])"

declare digits.simps [simp del]

definition show_int :: "int \<Rightarrow> string" where
  "show_int i = (if i < 0 then CHR ''-'' # digits (nat (- i)) else digits (nat i))"

text \<open>The template literal \<^verbatim>\<open>`${child.pid}\n`\<close>.\<close>

definition pid_text :: "int option \<Rightarrow> string" where
  "pid_text child =
     (case child of None \<Rightarrow> ''undefined'' | Some p \<Rightarrow> show_int p) @ [CHR 0x0A]"

subsection \<open>The functions of the module\<close>

text \<open>\<^verbatim>\<open>serverUrl.replace(/\/+$/, '/')\<close>: a trailing run of slashes becomes one slash.\<close>

definition replace_trailing_slashes :: "string \<Rightarrow> string" where
  "replace_trailing_slashes s =
     (let body = rev (dropWhile (\<lambda>c. c = CHR ''/'') (rev s))
      in if body = s then s else body @ ''/'')"

definition pingTranslationServer :: "host \<Rightarrow> string \<Rightarrow> int \<Rightarrow> bool io" where
  "pingTranslationServer h serverUrl timeoutMs =
     tryCatch (fetch h (replace_trailing_slashes serverUrl) timeoutMs) (\<lambda>code. code < 500) False"

definition parseHost :: "host \<Rightarrow> string \<Rightarrow> string option" where
  "parseHost h serverUrl = url_hostname h serverUrl"

definition isProcessRunning :: "host \<Rightarrow> int \<Rightarrow> bool io" where
  "isProcessRunning h p = tryCatch (process_kill h p Sig0) (\<lambda>_. True) False"

text \<open>Lines 41 to 45 of \<^verbatim>\<open>readPidFile\<close>: the text of the file to a pid or \<^verbatim>\<open>null\<close>.\<close>

definition parse_pid :: "host \<Rightarrow> string \<Rightarrow> int option" where
  "parse_pid h raw =
     (let n = js_Number h (js_trim h raw)
      in if \<not> isInteger n \<or> le_zero n then None else Some (to_int n))"

definition readPidFile :: "host \<Rightarrow> string \<Rightarrow> int option io" where
  "readPidFile h path w =
     (case readFile h path w of
        (Return raw, w') \<Rightarrow> (Return (parse_pid h raw), w')
      | (Throw (IOFailure code), w') \<Rightarrow>
          if code = ''ENOENT'' then (Return None, w') else (Throw (IOFailure code), w')
      | (Throw e, w') \<Rightarrow> (Throw e, w')
      | (Pending, w') \<Rightarrow> (Pending, w'))"

definition removePidFileIfExists :: "host \<Rightarrow> string \<Rightarrow> unit io" where
  "removePidFileIfExists h path w =
     (case unlink h path w of
        (Throw (IOFailure code), w') \<Rightarrow>
          if code \<noteq> ''ENOENT'' then (Throw (IOFailure code), w') else (Return (), w')
      | other \<Rightarrow> other)"

text \<open>\<^verbatim>\<open>!pid\<close> for a \<^verbatim>\<open>number | null\<close>.\<close>

fun falsy :: "int option \<Rightarrow> bool" where
  "falsy None = True"
| "falsy (Some p) = (p = 0)"

definition status :: "host \<Rightarrow> ServerManagementConfig \<Rightarrow> string \<Rightarrow> int \<Rightarrow> NodeServerStatus io" where
  "status h settings serverUrl timeoutMs =
     andThen (pingTranslationServer h serverUrl (min 3000 timeoutMs)) (\<lambda>r.
     andThen (readPidFile h (pidFile settings)) (\<lambda>recorded.
       case recorded of
         None \<Rightarrow> ret \<lparr>reachable = r, pid = None, process = Missing\<rparr>
       | Some p \<Rightarrow>
           if p = 0 then ret \<lparr>reachable = r, pid = None, process = Missing\<rparr>
           else
             andThen (isProcessRunning h p) (\<lambda>running.
               if running then ret \<lparr>reachable = r, pid = Some p, process = Running\<rparr>
               else ret \<lparr>reachable = r, pid = Some p, process = Stopped\<rparr>)))"

text \<open>
  The \<^verbatim>\<open>while (Date.now() < deadline)\<close> loop of \<^verbatim>\<open>start\<close> with the \<^verbatim>\<open>throw\<close> that
  follows it; the first argument bounds the number of times the loop head is evaluated.
\<close>

fun start_poll ::
  "nat \<Rightarrow> host \<Rightarrow> ServerManagementConfig \<Rightarrow> string \<Rightarrow> int option \<Rightarrow> int \<Rightarrow> unit io" where
  "start_poll 0 h settings serverUrl child deadline = pending"
| "start_poll (Suc n) h settings serverUrl child deadline =
     andThen (Date_now h) (\<lambda>now.
       if \<not> now < deadline then throw (NotReadyWithin (startupTimeoutMs settings))
       else
         andThen (pingTranslationServer h serverUrl 1500) (\<lambda>r.
           if r then ret ()
           else
             andThen (isProcessRunning h (case child of None \<Rightarrow> - 1 | Some p \<Rightarrow> p)) (\<lambda>running.
               if \<not> running then
                 andThen (removePidFileIfExists h (pidFile settings)) (\<lambda>_.
                   throw (ExitedEarly (logFile settings)))
               else
                 andThen (sleep (pollIntervalMs settings)) (\<lambda>_.
                   start_poll n h settings serverUrl child deadline))))"

definition start :: "nat \<Rightarrow> host \<Rightarrow> ServerManagementConfig \<Rightarrow> string \<Rightarrow> unit io" where
  "start fuel h settings serverUrl =
     (case parseHost h serverUrl of
        None \<Rightarrow> throw InvalidURL
      | Some hostname \<Rightarrow>
          if hostname \<noteq> ''127.0.0.1'' \<and> hostname \<noteq> ''localhost'' then throw (NotLocalhost hostname)
          else
            andThen (readPidFile h (pidFile settings)) (\<lambda>currentPid.
            andThen (if falsy currentPid then ret False
                     else isProcessRunning h (case currentPid of Some p \<Rightarrow> p | None \<Rightarrow> 0)) (\<lambda>running.
              if running then ret ()
              else if sourcePath settings = [] \<or> js_trim h (sourcePath settings) = []
              then throw SourcePathEmpty
              else
                let sourcePath' = path_resolve h (sourcePath settings);
                    serverEntry = path_join h [sourcePath', ''src'', ''server.js'']
                in
                  andThen (tryCatch (access h serverEntry) (\<lambda>_. True) False) (\<lambda>found.
                    if \<not> found then throw (EntryNotFound serverEntry)
                    else
                      andThen (mkdir_recursive h (path_dirname h (pidFile settings))) (\<lambda>_.
                      andThen (mkdir_recursive h (path_dirname h (logFile settings))) (\<lambda>_.
                      andThen (openSync_append h (logFile settings)) (\<lambda>out.
                      andThen (spawn h (nodeCommand settings) [''src/server.js''] sourcePath'
                                 (case node_env h of
                                    None \<Rightarrow> ''production''
                                  | Some v \<Rightarrow> if v = [] then ''production'' else v)) (\<lambda>child.
                      andThen (await_after_spawn h child (pidFile settings)
                                 (writeFile h (pidFile settings) (pid_text child))) (\<lambda>_.
                      andThen (Date_now h) (\<lambda>now.
                        start_poll fuel h settings serverUrl child
                          (now + startupTimeoutMs settings)))))))))))"

text \<open>
  The \<^verbatim>\<open>while (Date.now() < deadline)\<close> loop of \<^verbatim>\<open>stop\<close> with the two statements that
  follow it.
\<close>

fun stop_poll :: "nat \<Rightarrow> host \<Rightarrow> ServerManagementConfig \<Rightarrow> int \<Rightarrow> int \<Rightarrow> unit io" where
  "stop_poll 0 h settings p deadline = pending"
| "stop_poll (Suc n) h settings p deadline =
     andThen (Date_now h) (\<lambda>now.
       if \<not> now < deadline then
         andThen (process_kill h p SIGKILL) (\<lambda>_.
           removePidFileIfExists h (pidFile settings))
       else
         andThen (isProcessRunning h p) (\<lambda>running.
           if \<not> running then removePidFileIfExists h (pidFile settings)
           else andThen (sleep 150) (\<lambda>_. stop_poll n h settings p deadline)))"

definition stop :: "nat \<Rightarrow> host \<Rightarrow> ServerManagementConfig \<Rightarrow> unit io" where
  "stop fuel h settings =
     andThen (readPidFile h (pidFile settings)) (\<lambda>recorded.
       case recorded of
         None \<Rightarrow> ret ()
       | Some p \<Rightarrow>
           if p = 0 then ret ()
           else
             andThen (isProcessRunning h p) (\<lambda>running.
               if \<not> running then removePidFileIfExists h (pidFile settings)
               else
                 andThen (process_kill h p SIGTERM) (\<lambda>_.
                 andThen (Date_now h) (\<lambda>now.
                   stop_poll fuel h settings p (now + 5000)))))"

definition ensureRunning ::
  "nat \<Rightarrow> host \<Rightarrow> ServerManagementConfig \<Rightarrow> string \<Rightarrow> int \<Rightarrow> unit io" where
  "ensureRunning fuel h settings serverUrl requestTimeoutMs =
     andThen (pingTranslationServer h serverUrl (min 3000 requestTimeoutMs)) (\<lambda>r.
       if r then ret ()
       else if \<not> enabled settings then throw UnreachableAndDisabled
       else start fuel h settings serverUrl)"

subsection \<open>A reference host\<close>

text \<open>
  The theorems below hold for every host. To run them on concrete files a host is needed
  whose built-ins compute; this one reads what the examples use and no more:
  \<open>trim_ascii\<close> strips the ASCII white space of \<^verbatim>\<open>trim\<close>, \<open>Number_decimal\<close> agrees with
  \<^verbatim>\<open>Number\<close> on the empty text, on decimal digits with an optional sign and on text that is
  no numeric literal (it does not read fractions, exponents or the \<^verbatim>\<open>0x\<close>, \<^verbatim>\<open>0o\<close>, \<^verbatim>\<open>0b\<close>
  forms), \<open>hostname_of\<close> reads \<^verbatim>\<open>http://host[:port][/path]\<close> with a lower-case host, and paths
  are absolute POSIX paths.
\<close>

definition is_space :: "char \<Rightarrow> bool" where
  "is_space c = (c \<in> set [CHR '' '', CHR 0x09, CHR 0x0A, CHR 0x0B, CHR 0x0C, CHR 0x0D])"

definition trim_ascii :: "string \<Rightarrow> string" where
  "trim_ascii s = rev (dropWhile is_space (rev (dropWhile is_space s)))"

definition is_digit :: "char \<Rightarrow> bool" where
  "is_digit c = (48 \<le> (of_char c :: nat) \<and> (of_char c :: nat) \<le> 57)"

definition digits_value :: "string \<Rightarrow> nat" where
  "digits_value ds = foldl (\<lambda>acc c. 10 * acc + ((of_char c :: nat) - 48)) 0 ds"

definition unsigned_decimal :: "string \<Rightarrow> number" where
  "unsigned_decimal ds =
     (if ds \<noteq> [] \<and> list_all is_digit ds then Num (of_nat (digits_value ds)) else NaN)"

fun Number_decimal :: "string \<Rightarrow> number" where
  "Number_decimal [] = Num 0"
| "Number_decimal (c # cs) =
     (if c = CHR ''-'' then
        (case unsigned_decimal cs of Num q \<Rightarrow> Num (- q) | other \<Rightarrow> other)
      else if c = CHR ''+'' then unsigned_decimal cs
      else unsigned_decimal (c # cs))"

definition hostname_of :: "string \<Rightarrow> string option" where
  "hostname_of url =
     (if take 7 url = ''http://'' \<and> drop 7 url \<noteq> []
      then Some (takeWhile (\<lambda>c. c \<noteq> CHR '':'' \<and> c \<noteq> CHR ''/'') (drop 7 url))
      else None)"

definition posix_join :: "string list \<Rightarrow> string" where
  "posix_join parts = foldr (\<lambda>part acc. if acc = [] then part else part @ ''/'' @ acc) parts []"

definition posix_dirname :: "string \<Rightarrow> string" where
  "posix_dirname path = rev (drop 1 (dropWhile (\<lambda>c. c \<noteq> CHR ''/'') (rev path)))"

text \<open>
  The outside world of the reference host: \<open>net n\<close> is what the request made at interaction
  \<open>n\<close> gets, \<open>procs n\<close> the pids that exist then, \<open>clock n\<close> the time then; no file-system
  call fails and every spawn yields pid 4242.
\<close>

definition reference_host ::
  "(nat \<Rightarrow> fetch_result) \<Rightarrow> (nat \<Rightarrow> int list) \<Rightarrow> (nat \<Rightarrow> int) \<Rightarrow> host" where
  "reference_host net procs clock =
     \<lparr>js_trim = trim_ascii,
      js_Number = Number_decimal,
      url_hostname = hostname_of,
      path_resolve = (\<lambda>path. path),
      path_join = posix_join,
      path_dirname = posix_dirname,
      node_env = None,
      fetch_outcome = (\<lambda>n url timeoutMs. net n),
      process_exists = (\<lambda>n p. p \<in> set (procs n)),
      date_now = clock,
      fs_fault = (\<lambda>n. None),
      spawn_outcome = (\<lambda>n. Spawned 4242),
      interrupted_write = (\<lambda>n. None)\<rparr>"

definition reference_settings :: ServerManagementConfig where
  "reference_settings =
     \<lparr>enabled = True,
      autoStart = True,
      sourcePath = ''/opt/ts'',
      nodeCommand = ''node'',
      pidFile = ''/run/ts.pid'',
      logFile = ''/log/ts.log'',
      startupTimeoutMs = 20000,
      pollIntervalMs = 500\<rparr>"

text \<open>A machine with the server checkout installed and no record; and one with a record.\<close>

definition fresh_world :: world where
  "fresh_world = \<lparr>tick = 0, files = [''/opt/ts/src/server.js'' \<mapsto> ''// server''], effects = []\<rparr>"

definition recorded_world :: "string \<Rightarrow> world" where
  "recorded_world text =
     \<lparr>tick = 0,
      files = [''/opt/ts/src/server.js'' \<mapsto> ''// server'', ''/run/ts.pid'' \<mapsto> text],
      effects = []\<rparr>"

text \<open>Outside worlds for the reference host.\<close>

definition no_answer :: "nat \<Rightarrow> fetch_result" where
  "no_answer n = Aborted"

definition answers :: "int \<Rightarrow> nat \<Rightarrow> fetch_result" where
  "answers code n = Response code"

definition nobody :: "nat \<Rightarrow> int list" where
  "nobody n = []"

definition lives :: "int \<Rightarrow> nat \<Rightarrow> int list" where
  "lives p n = [p]"

definition lives_until :: "nat \<Rightarrow> int \<Rightarrow> nat \<Rightarrow> int list" where
  "lives_until k p n = (if n < k then [p] else [])"

definition clock_every :: "int \<Rightarrow> nat \<Rightarrow> int" where
  "clock_every ms n = int n * ms"

text \<open>
  The world a first \<^verbatim>\<open>start\<close> leaves on a machine where pid 4242 is spawned and the endpoint
  answers the first request; and a machine whose record names a pid, with no server
  checkout.
\<close>

definition started_world :: world where
  "started_world =
     \<lparr>tick = 10,
      files = [''/opt/ts/src/server.js'' \<mapsto> ''// server'', ''/log/ts.log'' \<mapsto> [],
               ''/run/ts.pid'' \<mapsto> pid_text (Some 4242)],
      effects = [Mkdir ''/run'', Mkdir ''/log'', OpenAppend ''/log/ts.log'',
                 Spawn ''node'' [''src/server.js''] ''/opt/ts'' ''production'',
                 WriteFile ''/run/ts.pid'' (pid_text (Some 4242)),
                 HttpGet ''http://localhost:1969'' 1500]\<rparr>"

definition stale_world :: world where
  "stale_world = \<lparr>tick = 0, files = [''/run/ts.pid'' \<mapsto> pid_text (Some 4242)], effects = []\<rparr>"

definition disabled_settings :: ServerManagementConfig where
  "disabled_settings = reference_settings\<lparr>enabled := False\<rparr>"

definition unset_settings :: ServerManagementConfig where
  "unset_settings = reference_settings\<lparr>sourcePath := []\<rparr>"

subsection \<open>Vocabulary of the statements\<close>

text \<open>The request was answered, with a status below 500.\<close>

definition below_500 :: "fetch_result \<Rightarrow> bool" where
  "below_500 r = (case r of Response code \<Rightarrow> code < 500 | _ \<Rightarrow> False)"

fun is_spawn :: "effect \<Rightarrow> bool" where
  "is_spawn (Spawn command args cwd nodeEnv) = True"
| "is_spawn _ = False"

text \<open>
  The pid the record file names, if it names one; the number of the interaction that
  follows the first check of \<^verbatim>\<open>start\<close> (the read of the record and, when it names a pid, the
  signal 0 to it); and the effects of that check.
\<close>

definition recorded_pid :: "host \<Rightarrow> string \<Rightarrow> world \<Rightarrow> int option" where
  "recorded_pid h path w = (case files w path of None \<Rightarrow> None | Some raw \<Rightarrow> parse_pid h raw)"

definition after_check :: "host \<Rightarrow> ServerManagementConfig \<Rightarrow> world \<Rightarrow> nat" where
  "after_check h s w =
     tick w + (case recorded_pid h (pidFile s) w of None \<Rightarrow> 1 | Some p \<Rightarrow> 2)"

definition check_effects :: "host \<Rightarrow> ServerManagementConfig \<Rightarrow> world \<Rightarrow> effect list" where
  "check_effects h s w =
     (case recorded_pid h (pidFile s) w of None \<Rightarrow> [] | Some p \<Rightarrow> [Kill p Sig0])"

text \<open>\<^verbatim>\<open>child.pid ?? -1\<close>, the pid whose liveness the poll loop of \<^verbatim>\<open>start\<close> checks.\<close>

definition polled_pid :: "int option \<Rightarrow> int" where
  "polled_pid child = (case child of None \<Rightarrow> - 1 | Some p \<Rightarrow> p)"

section \<open>What the calls do to the world\<close>

lemma step_simps [simp]:
  "tick (step w) = Suc (tick w)" "files (step w) = files w" "effects (step w) = effects w"
  by (simp_all add: step_def)

lemma emit_simps [simp]:
  "tick (emit e w) = Suc (tick w)" "files (emit e w) = files w"
  "effects (emit e w) = effects w @ [e]"
  by (simp_all add: emit_def)

lemma pingTranslationServer_eq:
  "pingTranslationServer h url t w =
     (Return (below_500 (fetch_outcome h (tick w) (replace_trailing_slashes url) t)),
      emit (HttpGet (replace_trailing_slashes url) t) w)"
  by (simp add: pingTranslationServer_def tryCatch_def fetch_def below_500_def
      split: fetch_result.splits)

lemma isProcessRunning_eq:
  "isProcessRunning h p w = (Return (process_exists h (tick w) p), emit (Kill p Sig0) w)"
  by (simp add: isProcessRunning_def tryCatch_def process_kill_def)

lemma readPidFile_eq:
  "readPidFile h path w =
     ((case fs_fault h (tick w) of
         Some code \<Rightarrow> if code = ''ENOENT'' then Return None else Throw (IOFailure code)
       | None \<Rightarrow>
           (case files w path of None \<Rightarrow> Return None | Some raw \<Rightarrow> Return (parse_pid h raw))),
      step w)"
  by (simp add: readPidFile_def readFile_def split: option.splits)

lemma removePidFileIfExists_eq:
  "removePidFileIfExists h path w =
     (case fs_fault h (tick w) of
        Some code \<Rightarrow> (if code \<noteq> ''ENOENT'' then Throw (IOFailure code) else Return (), step w)
      | None \<Rightarrow>
          (case files w path of
             None \<Rightarrow> (Return (), step w)
           | Some text \<Rightarrow>
               (Return (), emit (Unlink path) (w\<lparr>files := (files w)(path := None)\<rparr>))))"
  by (simp add: removePidFileIfExists_def unlink_def split: option.splits)

lemma parse_pid_positive: "parse_pid h raw = Some p \<Longrightarrow> 0 < p"
  by (cases "js_Number h (js_trim h raw)") (auto simp: parse_pid_def Let_def split: if_splits)

text \<open>
  While the deadline has not come and the process answers signal 0, an iteration of the
  loop of \<^verbatim>\<open>stop\<close> is three interactions (clock, signal 0, timer) and one effect.
\<close>

lemma stop_poll_waits:
  assumes "\<forall>i<n. date_now h (tick w + 3 * i) < d \<and> process_exists h (tick w + 3 * i + 1) p"
  shows "stop_poll (n + k) h s p d w =
           stop_poll k h s p d
             (w\<lparr>tick := tick w + 3 * n, effects := effects w @ replicate n (Kill p Sig0)\<rparr>)"
  using assms
proof (induction n arbitrary: w)
  case 0
  then show ?case by simp
next
  case (Suc n)
  let ?w3 = "step (emit (Kill p Sig0) (step w))"
  from Suc.prems have now: "date_now h (tick w) < d"
    and alive: "process_exists h (Suc (tick w)) p"
    by (auto dest: spec [of _ 0])
  have shift: "tick ?w3 + 3 * i = tick w + 3 * Suc i"
    "tick ?w3 + 3 * i + 1 = tick w + 3 * Suc i + 1" for i
    by simp_all
  have later:
    "\<forall>i<n. date_now h (tick ?w3 + 3 * i) < d \<and> process_exists h (tick ?w3 + 3 * i + 1) p"
  proof (intro allI impI)
    fix i assume "i < n"
    then have "Suc i < Suc n" by simp
    with Suc.prems
    have "date_now h (tick w + 3 * Suc i) < d \<and> process_exists h (tick w + 3 * Suc i + 1) p"
      by blast
    moreover note shift [of i]
    ultimately
    show "date_now h (tick ?w3 + 3 * i) < d \<and> process_exists h (tick ?w3 + 3 * i + 1) p"
      by (simp only: simp_thms)
  qed
  have "stop_poll (Suc n + k) h s p d w = stop_poll (n + k) h s p d ?w3"
    using now alive by (simp add: andThen_def Date_now_def isProcessRunning_eq sleep_def)
  also have "\<dots> = stop_poll k h s p d
      (?w3\<lparr>tick := tick ?w3 + 3 * n, effects := effects ?w3 @ replicate n (Kill p Sig0)\<rparr>)"
    by (rule Suc.IH [OF later])
  also have "?w3\<lparr>tick := tick ?w3 + 3 * n, effects := effects ?w3 @ replicate n (Kill p Sig0)\<rparr>
      = w\<lparr>tick := tick w + 3 * Suc n, effects := effects w @ replicate (Suc n) (Kill p Sig0)\<rparr>"
    by (simp add: step_def emit_def)
  finally show ?case .
qed

text \<open>
  While the deadline has not come, the endpoint does not answer and the child answers
  signal 0, an iteration of the loop of \<^verbatim>\<open>start\<close> is four interactions (clock, request,
  signal 0, timer) and two effects.
\<close>

lemma start_poll_waits:
  assumes "\<forall>i<n. date_now h (tick w + 4 * i) < d
             \<and> \<not> below_500 (fetch_outcome h (tick w + 4 * i + 1) (replace_trailing_slashes url) 1500)
             \<and> process_exists h (tick w + 4 * i + 2) (polled_pid child)"
  shows "start_poll (n + k) h s url child d w =
           start_poll k h s url child d
             (w\<lparr>tick := tick w + 4 * n,
                effects := effects w @
                  concat (replicate n [HttpGet (replace_trailing_slashes url) 1500,
                                       Kill (polled_pid child) Sig0])\<rparr>)"
  using assms
proof (induction n arbitrary: w)
  case 0
  then show ?case by simp
next
  case (Suc n)
  let ?u = "replace_trailing_slashes url"
  let ?q = "polled_pid child"
  let ?w4 = "step (emit (Kill ?q Sig0) (emit (HttpGet ?u 1500) (step w)))"
  from Suc.prems have now: "date_now h (tick w) < d"
    and silent: "\<not> below_500 (fetch_outcome h (Suc (tick w)) ?u 1500)"
    and alive: "process_exists h (Suc (Suc (tick w))) ?q"
    by (auto dest: spec [of _ 0])
  have shift: "tick ?w4 + 4 * i = tick w + 4 * Suc i"
    "tick ?w4 + 4 * i + 1 = tick w + 4 * Suc i + 1"
    "tick ?w4 + 4 * i + 2 = tick w + 4 * Suc i + 2" for i
    by simp_all
  have later: "\<forall>i<n. date_now h (tick ?w4 + 4 * i) < d
             \<and> \<not> below_500 (fetch_outcome h (tick ?w4 + 4 * i + 1) ?u 1500)
             \<and> process_exists h (tick ?w4 + 4 * i + 2) ?q"
  proof (intro allI impI)
    fix i assume "i < n"
    then have "Suc i < Suc n" by simp
    with Suc.prems have "date_now h (tick w + 4 * Suc i) < d
             \<and> \<not> below_500 (fetch_outcome h (tick w + 4 * Suc i + 1) ?u 1500)
             \<and> process_exists h (tick w + 4 * Suc i + 2) ?q"
      by blast
    moreover note shift [of i]
    ultimately show "date_now h (tick ?w4 + 4 * i) < d
             \<and> \<not> below_500 (fetch_outcome h (tick ?w4 + 4 * i + 1) ?u 1500)
             \<and> process_exists h (tick ?w4 + 4 * i + 2) ?q"
      by (simp only: simp_thms)
  qed
  have "start_poll (Suc n + k) h s url child d w = start_poll (n + k) h s url child d ?w4"
    using now silent alive
    by (simp add: andThen_def Date_now_def pingTranslationServer_eq isProcessRunning_eq
        sleep_def polled_pid_def)
  also have "\<dots> = start_poll k h s url child d
      (?w4\<lparr>tick := tick ?w4 + 4 * n,
            effects := effects ?w4 @ concat (replicate n [HttpGet ?u 1500, Kill ?q Sig0])\<rparr>)"
    by (rule Suc.IH [OF later])
  also have "?w4\<lparr>tick := tick ?w4 + 4 * n,
                 effects := effects ?w4 @ concat (replicate n [HttpGet ?u 1500, Kill ?q Sig0])\<rparr>
      = w\<lparr>tick := tick w + 4 * Suc n,
           effects := effects w @ concat (replicate (Suc n) [HttpGet ?u 1500, Kill ?q Sig0])\<rparr>"
    by (simp add: step_def emit_def)
  finally show ?case .
qed

text \<open>
  The launch of \<^verbatim>\<open>start\<close>: the URL is a loopback one, the record names no pid or a pid that
  does not answer signal 0, the source path is set and the server entry exists, a process
  with pid \<open>c\<close> is spawned and no file-system call fails. Then the poll loop is entered
  with the child \<open>c\<close>, the deadline \<open>now + startupTimeoutMs\<close> and the record written.
\<close>

lemma start_launch:
  assumes host: "url_hostname h url = Some hostname"
      "hostname = ''127.0.0.1'' \<or> hostname = ''localhost''"
    and read_ok: "fs_fault h (tick w) = None"
    and stale: "\<forall>p. recorded_pid h (pidFile s) w = Some p \<longrightarrow> \<not> process_exists h (tick w + 1) p"
    and source: "sourcePath s \<noteq> []" "js_trim h (sourcePath s) \<noteq> []"
    and entry: "files w (path_join h [path_resolve h (sourcePath s), ''src'', ''server.js'']) = Some code"
    and io_ok: "fs_fault h (after_check h s w) = None" "fs_fault h (after_check h s w + 1) = None"
      "fs_fault h (after_check h s w + 2) = None" "fs_fault h (after_check h s w + 3) = None"
      "fs_fault h (after_check h s w + 5) = None"
    and spawned: "spawn_outcome h (after_check h s w + 4) = Spawned c"
  shows "start fuel h s url w =
     start_poll fuel h s url (Some c) (date_now h (after_check h s w + 6) + startupTimeoutMs s)
       \<lparr>tick = after_check h s w + 7,
        files = (files w)
           (logFile s \<mapsto> (case files w (logFile s) of None \<Rightarrow> [] | Some text \<Rightarrow> text),
            pidFile s \<mapsto> pid_text (Some c)),
        effects = effects w @ check_effects h s w @
          [Mkdir (path_dirname h (pidFile s)), Mkdir (path_dirname h (logFile s)),
           OpenAppend (logFile s),
           Spawn (nodeCommand s) [''src/server.js''] (path_resolve h (sourcePath s))
             (case node_env h of None \<Rightarrow> ''production''
              | Some v \<Rightarrow> if v = [] then ''production'' else v),
           WriteFile (pidFile s) (pid_text (Some c))]\<rparr>"
proof (cases "recorded_pid h (pidFile s) w")
  case None
  then have t: "after_check h s w = Suc (tick w)" and e: "check_effects h s w = []"
    by (simp_all add: after_check_def check_effects_def)
  from None have rd: "(case files w (pidFile s) of None \<Rightarrow> None | Some raw \<Rightarrow> parse_pid h raw) = None"
    by (simp add: recorded_pid_def)
  have rp: "readPidFile h (pidFile s) w = (Return None, step w)"
    using read_ok rd by (simp add: readPidFile_eq split: option.splits)
  show ?thesis
    using host source entry io_ok spawned rp unfolding t e
    by (cases w)
      (auto simp: start_def parseHost_def andThen_def ret_def tryCatch_def access_def
        mkdir_recursive_def openSync_append_def spawn_def await_after_spawn_def writeFile_def
        Date_now_def Let_def step_def emit_def eval_nat_numeral)
next
  case (Some p)
  then have t: "after_check h s w = Suc (Suc (tick w))" and e: "check_effects h s w = [Kill p Sig0]"
    by (simp_all add: after_check_def check_effects_def)
  from Some have rd: "(case files w (pidFile s) of None \<Rightarrow> None | Some raw \<Rightarrow> parse_pid h raw) = Some p"
    by (simp add: recorded_pid_def)
  then have "0 < p" by (auto dest: parse_pid_positive split: option.splits)
  then have nz: "p \<noteq> 0" by simp
  have rp: "readPidFile h (pidFile s) w = (Return (Some p), step w)"
    using read_ok rd by (simp add: readPidFile_eq split: option.splits)
  from stale Some have dead: "\<not> process_exists h (Suc (tick w)) p" by simp
  show ?thesis
    using host source entry io_ok spawned nz dead rp unfolding t e
    by (cases w)
      (auto simp: start_def parseHost_def andThen_def isProcessRunning_eq ret_def tryCatch_def
        access_def mkdir_recursive_def openSync_append_def spawn_def await_after_spawn_def
        writeFile_def Date_now_def Let_def step_def emit_def eval_nat_numeral)
qed

text \<open>
  The two ways the poll loop of \<^verbatim>\<open>start\<close> throws, after \<open>n\<close> iterations that found the
  endpoint silent and the child alive.
\<close>

lemma start_poll_child_dead:
  assumes waiting: "\<forall>i<n. date_now h (tick w0 + 4 * i) < d
        \<and> \<not> below_500 (fetch_outcome h (tick w0 + 4 * i + 1) (replace_trailing_slashes url) 1500)
        \<and> process_exists h (tick w0 + 4 * i + 2) (polled_pid child)"
    and now: "date_now h (tick w0 + 4 * n) < d"
    and silent: "\<not> below_500 (fetch_outcome h (tick w0 + 4 * n + 1) (replace_trailing_slashes url) 1500)"
    and dead: "\<not> process_exists h (tick w0 + 4 * n + 2) (polled_pid child)"
    and unlink_ok: "fs_fault h (tick w0 + 4 * n + 3) = None"
    and present: "files w0 (pidFile s) = Some content"
    and fuel: "n < fuel"
  shows "start_poll fuel h s url child d w0 =
     (Throw (ExitedEarly (logFile s)),
      \<lparr>tick = tick w0 + 4 * n + 4,
       files = (files w0)(pidFile s := None),
       effects = effects w0 @
         concat (replicate n [HttpGet (replace_trailing_slashes url) 1500,
                              Kill (polled_pid child) Sig0]) @
         [HttpGet (replace_trailing_slashes url) 1500, Kill (polled_pid child) Sig0,
          Unlink (pidFile s)]\<rparr>)"
proof -
  let ?u = "replace_trailing_slashes url"
  let ?q = "polled_pid child"
  let ?wn = "w0\<lparr>tick := tick w0 + 4 * n,
                effects := effects w0 @ concat (replicate n [HttpGet ?u 1500, Kill ?q Sig0])\<rparr>"
  from fuel obtain k where fuel_eq: "fuel = n + Suc k"
    by (auto dest: less_imp_Suc_add)
  have c1: "date_now h (tick ?wn) < d" using now by simp
  have c2: "\<not> below_500 (fetch_outcome h (Suc (tick ?wn)) ?u 1500)" using silent by simp
  have c3: "\<not> process_exists h (Suc (Suc (tick ?wn))) ?q"
  proof -
    have "Suc (Suc (tick ?wn)) = tick w0 + 4 * n + 2" by simp
    with dead show ?thesis by (simp only: simp_thms)
  qed
  have c4: "fs_fault h (Suc (Suc (Suc (tick ?wn)))) = None"
  proof -
    have "Suc (Suc (Suc (tick ?wn))) = tick w0 + 4 * n + 3" by simp
    with unlink_ok show ?thesis by (simp only: simp_thms)
  qed
  have c5: "files ?wn (pidFile s) = Some content" using present by simp
  have "start_poll fuel h s url child d w0 = start_poll (n + Suc k) h s url child d w0"
    using fuel_eq by (simp only:)
  also have "\<dots> = start_poll (Suc k) h s url child d ?wn"
    using waiting by (rule start_poll_waits)
  also have "\<dots> = (Throw (ExitedEarly (logFile s)),
      emit (Unlink (pidFile s))
        ((emit (Kill ?q Sig0) (emit (HttpGet ?u 1500) (step ?wn)))
           \<lparr>files := (files (emit (Kill ?q Sig0) (emit (HttpGet ?u 1500) (step ?wn))))
                       (pidFile s := None)\<rparr>))"
    using c1 c2 c3 c4 c5
    by (simp add: andThen_def Date_now_def pingTranslationServer_eq isProcessRunning_eq
        removePidFileIfExists_eq throw_def polled_pid_def)
  also have "emit (Unlink (pidFile s))
        ((emit (Kill ?q Sig0) (emit (HttpGet ?u 1500) (step ?wn)))
           \<lparr>files := (files (emit (Kill ?q Sig0) (emit (HttpGet ?u 1500) (step ?wn))))
                       (pidFile s := None)\<rparr>)
      = \<lparr>tick = tick w0 + 4 * n + 4,
         files = (files w0)(pidFile s := None),
         effects = effects w0 @ concat (replicate n [HttpGet ?u 1500, Kill ?q Sig0]) @
           [HttpGet ?u 1500, Kill ?q Sig0, Unlink (pidFile s)]\<rparr>"
    by (cases w0) (simp add: step_def emit_def)
  finally show ?thesis .
qed

lemma start_poll_deadline:
  assumes waiting: "\<forall>i<n. date_now h (tick w0 + 4 * i) < d
        \<and> \<not> below_500 (fetch_outcome h (tick w0 + 4 * i + 1) (replace_trailing_slashes url) 1500)
        \<and> process_exists h (tick w0 + 4 * i + 2) (polled_pid child)"
    and elapsed: "d \<le> date_now h (tick w0 + 4 * n)"
    and fuel: "n < fuel"
  shows "start_poll fuel h s url child d w0 =
     (Throw (NotReadyWithin (startupTimeoutMs s)),
      \<lparr>tick = tick w0 + 4 * n + 1,
       files = files w0,
       effects = effects w0 @
         concat (replicate n [HttpGet (replace_trailing_slashes url) 1500,
                              Kill (polled_pid child) Sig0])\<rparr>)"
proof -
  let ?u = "replace_trailing_slashes url"
  let ?q = "polled_pid child"
  let ?wn = "w0\<lparr>tick := tick w0 + 4 * n,
                effects := effects w0 @ concat (replicate n [HttpGet ?u 1500, Kill ?q Sig0])\<rparr>"
  from fuel obtain k where fuel_eq: "fuel = n + Suc k"
    by (auto dest: less_imp_Suc_add)
  have c1: "\<not> date_now h (tick ?wn) < d" using elapsed by simp
  have "start_poll fuel h s url child d w0 = start_poll (n + Suc k) h s url child d w0"
    using fuel_eq by (simp only:)
  also have "\<dots> = start_poll (Suc k) h s url child d ?wn"
    using waiting by (rule start_poll_waits)
  also have "\<dots> = (Throw (NotReadyWithin (startupTimeoutMs s)), step ?wn)"
    using c1 by (simp add: andThen_def Date_now_def throw_def)
  also have "step ?wn = \<lparr>tick = tick w0 + 4 * n + 1, files = files w0,
       effects = effects w0 @ concat (replicate n [HttpGet ?u 1500, Kill ?q Sig0])\<rparr>"
    by (cases w0) (simp add: step_def)
  finally show ?thesis .
qed

text \<open>The poll loop of \<^verbatim>\<open>start\<close> spawns nothing; \<^verbatim>\<open>start\<close> spawns at most once.\<close>

lemma start_poll_spawns:
  "length (filter is_spawn (effects (snd (start_poll n h s url child d w0))))
     = length (filter is_spawn (effects w0))"
proof (induction n arbitrary: w0)
  case 0
  then show ?case by (simp add: pending_def)
next
  case (Suc n)
  let ?w4 = "step (emit (Kill (polled_pid child) Sig0)
               (emit (HttpGet (replace_trailing_slashes url) 1500) (step w0)))"
  show ?case
  proof (cases "date_now h (tick w0) < d
      \<and> \<not> below_500 (fetch_outcome h (Suc (tick w0)) (replace_trailing_slashes url) 1500)
      \<and> process_exists h (Suc (Suc (tick w0))) (polled_pid child)")
    case True
    then have "start_poll (Suc n) h s url child d w0 = start_poll n h s url child d ?w4"
      by (simp add: andThen_def Date_now_def pingTranslationServer_eq isProcessRunning_eq
          sleep_def polled_pid_def)
    with Suc.IH [of ?w4] show ?thesis by simp
  next
    case False
    then show ?thesis
      by (auto simp: andThen_def Date_now_def pingTranslationServer_eq isProcessRunning_eq
          removePidFileIfExists_eq throw_def ret_def polled_pid_def split: option.splits)
  qed
qed

lemma start_poll_spawns':
  "start_poll n h s url child d w0 = (r, w') \<Longrightarrow>
     length (filter is_spawn (effects w')) = length (filter is_spawn (effects w0))"
  using start_poll_spawns [of n h s url child d w0] by simp

lemma start_spawns':
  assumes "start fuel h s url w = (r, w')"
  shows "length (filter is_spawn (effects w')) \<le> Suc (length (filter is_spawn (effects w)))"
  using assms
  by (auto simp: start_def parseHost_def throw_def ret_def andThen_def readPidFile_eq
      isProcessRunning_eq tryCatch_def access_def mkdir_recursive_def openSync_append_def
      spawn_def await_after_spawn_def writeFile_def Date_now_def Let_def
      dest!: start_poll_spawns'
      split: option.splits if_splits spawn_result.splits)

lemma start_spawns:
  "length (filter is_spawn (effects (snd (start fuel h s url w))))
     \<le> Suc (length (filter is_spawn (effects w)))"
  by (rule start_spawns' [of fuel h s url w "fst (start fuel h s url w)"]) simp

text \<open>
  Every effect of \<^verbatim>\<open>stop\<close> is a signal to the pid it read or the removal of the record,
  also when the loop has not finished within the bound.
\<close>

lemma stop_poll_signals:
  "\<exists>es. effects (snd (stop_poll n h s p d w)) = effects w @ es
      \<and> (\<forall>e\<in>set es. e = Unlink (pidFile s) \<or> (\<exists>sg. e = Kill p sg))"
proof (induction n arbitrary: w)
  case 0
  then show ?case by (simp add: pending_def)
next
  case (Suc n)
  let ?w3 = "step (emit (Kill p Sig0) (step w))"
  show ?case
  proof (cases "date_now h (tick w) < d \<and> process_exists h (Suc (tick w)) p")
    case True
    then have unfold: "stop_poll (Suc n) h s p d w = stop_poll n h s p d ?w3"
      by (simp add: andThen_def Date_now_def isProcessRunning_eq sleep_def)
    from Suc.IH [of ?w3] obtain es where
      es: "effects (snd (stop_poll n h s p d ?w3)) = effects ?w3 @ es"
        "\<forall>e\<in>set es. e = Unlink (pidFile s) \<or> (\<exists>sg. e = Kill p sg)"
      by blast
    have "effects (snd (stop_poll (Suc n) h s p d w)) = effects w @ (Kill p Sig0 # es)"
      using es(1) unfold by simp
    moreover have "\<forall>e\<in>set (Kill p Sig0 # es). e = Unlink (pidFile s) \<or> (\<exists>sg. e = Kill p sg)"
      using es(2) by simp
    ultimately show ?thesis by blast
  next
    case False
    then show ?thesis
      by (auto simp: andThen_def Date_now_def isProcessRunning_eq process_kill_def
          removePidFileIfExists_eq split: option.splits)
  qed
qed

lemma stop_signals:
  "\<exists>es. effects (snd (stop fuel h s w)) = effects w @ es
      \<and> (\<forall>e\<in>set es. \<forall>q sg. e = Kill q sg \<longrightarrow> 0 < q)"
proof (cases "fs_fault h (tick w)")
  case (Some code)
  then show ?thesis
    by (simp add: stop_def andThen_def readPidFile_eq ret_def)
next
  case None
  show ?thesis
  proof (cases "files w (pidFile s)")
    case absent: None
    with None show ?thesis
      by (simp add: stop_def andThen_def readPidFile_eq ret_def)
  next
    case (Some raw)
    show ?thesis
    proof (cases "parse_pid h raw")
      case unparsed: None
      with None Some show ?thesis
        by (simp add: stop_def andThen_def readPidFile_eq ret_def)
    next
      case parsed: (Some p)
      then have positive: "0 < p" by (rule parse_pid_positive)
      show ?thesis
      proof (cases "process_exists h (Suc (tick w)) p \<and> process_exists h (Suc (Suc (tick w))) p")
        case False
        with None Some parsed positive show ?thesis
          by (auto simp: stop_def andThen_def readPidFile_eq isProcessRunning_eq
              removePidFileIfExists_eq process_kill_def split: option.splits)
      next
        case True
        let ?w4 = "step (emit (Kill p SIGTERM) (emit (Kill p Sig0) (step w)))"
        let ?d = "date_now h (Suc (Suc (Suc (tick w)))) + 5000"
        from True None Some parsed positive
        have unfold: "stop fuel h s w = stop_poll fuel h s p ?d ?w4"
          by (simp add: stop_def andThen_def readPidFile_eq isProcessRunning_eq process_kill_def
              Date_now_def)
        from stop_poll_signals [of fuel h s p ?d ?w4] obtain es where
          es: "effects (snd (stop_poll fuel h s p ?d ?w4)) = effects ?w4 @ es"
            "\<forall>e\<in>set es. e = Unlink (pidFile s) \<or> (\<exists>sg. e = Kill p sg)"
          by blast
        have "effects (snd (stop fuel h s w)) = effects w @ (Kill p Sig0 # Kill p SIGTERM # es)"
          using es(1) unfold by simp
        moreover have "\<forall>e\<in>set (Kill p Sig0 # Kill p SIGTERM # es). \<forall>q sg. e = Kill q sg \<longrightarrow> 0 < q"
          using es(2) positive by auto
        ultimately show ?thesis by blast
      qed
    qed
  qed
qed

text \<open>What is known of the files once \<^verbatim>\<open>stop\<close> has returned or \<^verbatim>\<open>start\<close> has thrown.\<close>

lemma stop_poll_return_deletes:
  assumes "stop_poll n h s p d w = (Return (), w')" and "\<forall>k. fs_fault h k \<noteq> Some ''ENOENT''"
  shows "files w' (pidFile s) = None"
  using assms
proof (induction n arbitrary: w)
  case 0
  then show ?case by (simp add: pending_def)
next
  case (Suc n)
  show ?case
  proof (cases "date_now h (tick w) < d \<and> process_exists h (Suc (tick w)) p")
    case True
    with Suc.prems(1) have "stop_poll n h s p d (step (emit (Kill p Sig0) (step w))) = (Return (), w')"
      by (simp add: andThen_def Date_now_def isProcessRunning_eq sleep_def)
    then show ?thesis using Suc.prems(2) by (rule Suc.IH)
  next
    case False
    with Suc.prems show ?thesis
      by (auto simp: andThen_def Date_now_def isProcessRunning_eq process_kill_def
          removePidFileIfExists_eq split: option.splits if_splits)
  qed
qed

lemma stop_return_deletes:
  assumes "stop fuel h s w = (Return (), w')" and "\<forall>k. fs_fault h k \<noteq> Some ''ENOENT''"
    and "files w (pidFile s) = Some raw" and "parse_pid h raw = Some p"
  shows "files w' (pidFile s) = None"
  using assms
  by (auto simp: stop_def andThen_def readPidFile_eq isProcessRunning_eq process_kill_def
      removePidFileIfExists_eq Date_now_def
      dest: parse_pid_positive stop_poll_return_deletes split: option.splits if_splits)

lemma start_poll_exited_deletes:
  assumes "start_poll n h s url child d w0 = (Throw (ExitedEarly l), w')"
    and "\<forall>k. fs_fault h k \<noteq> Some ''ENOENT''"
  shows "files w' (pidFile s) = None"
  using assms
proof (induction n arbitrary: w0)
  case 0
  then show ?case by (simp add: pending_def)
next
  case (Suc n)
  show ?case
  proof (cases "date_now h (tick w0) < d
      \<and> \<not> below_500 (fetch_outcome h (Suc (tick w0)) (replace_trailing_slashes url) 1500)
      \<and> process_exists h (Suc (Suc (tick w0))) (polled_pid child)")
    case True
    with Suc.prems(1) have "start_poll n h s url child d
        (step (emit (Kill (polled_pid child) Sig0)
               (emit (HttpGet (replace_trailing_slashes url) 1500) (step w0))))
        = (Throw (ExitedEarly l), w')"
      by (simp add: andThen_def Date_now_def pingTranslationServer_eq isProcessRunning_eq
          sleep_def polled_pid_def)
    then show ?thesis using Suc.prems(2) by (rule Suc.IH)
  next
    case False
    with Suc.prems show ?thesis
      by (auto simp: andThen_def Date_now_def pingTranslationServer_eq isProcessRunning_eq
          removePidFileIfExists_eq throw_def ret_def polled_pid_def
          split: option.splits if_splits spawn_result.splits)
  qed
qed

lemma start_poll_throws:
  assumes "start_poll n h s url child d w0 = (Throw e, w')"
  shows "e = NotReadyWithin (startupTimeoutMs s) \<or> e = ExitedEarly (logFile s) \<or> (\<exists>code. e = IOFailure code)"
  using assms
proof (induction n arbitrary: w0)
  case 0
  then show ?case by (simp add: pending_def)
next
  case (Suc n)
  show ?case
  proof (cases "date_now h (tick w0) < d
      \<and> \<not> below_500 (fetch_outcome h (Suc (tick w0)) (replace_trailing_slashes url) 1500)
      \<and> process_exists h (Suc (Suc (tick w0))) (polled_pid child)")
    case True
    with Suc.prems have "start_poll n h s url child d
        (step (emit (Kill (polled_pid child) Sig0)
               (emit (HttpGet (replace_trailing_slashes url) 1500) (step w0))))
        = (Throw e, w')"
      by (simp add: andThen_def Date_now_def pingTranslationServer_eq isProcessRunning_eq
          sleep_def polled_pid_def)
    then show ?thesis by (rule Suc.IH)
  next
    case False
    with Suc.prems show ?thesis
      by (auto simp: andThen_def Date_now_def pingTranslationServer_eq isProcessRunning_eq
          removePidFileIfExists_eq throw_def ret_def polled_pid_def
          split: option.splits if_splits spawn_result.splits)
  qed
qed

lemma start_source_error_frame:
  assumes "start fuel h s url w = (Throw SourcePathEmpty, w')"
  shows "files w' = files w"
  using assms
  by (auto simp: start_def parseHost_def throw_def ret_def andThen_def readPidFile_eq
      isProcessRunning_eq tryCatch_def access_def mkdir_recursive_def openSync_append_def
      spawn_def await_after_spawn_def writeFile_def Date_now_def Let_def
      dest!: start_poll_throws
      split: option.splits if_splits spawn_result.splits)

lemma start_entry_error_frame:
  assumes "start fuel h s url w = (Throw (EntryNotFound entry), w')"
  shows "files w' = files w"
  using assms
  by (auto simp: start_def parseHost_def throw_def ret_def andThen_def readPidFile_eq
      isProcessRunning_eq tryCatch_def access_def mkdir_recursive_def openSync_append_def
      spawn_def await_after_spawn_def writeFile_def Date_now_def Let_def
      dest!: start_poll_throws
      split: option.splits if_splits spawn_result.splits)

lemma start_exited_deletes:
  assumes "start fuel h s url w = (Throw (ExitedEarly l), w')"
    and "\<forall>k. fs_fault h k \<noteq> Some ''ENOENT''"
  shows "files w' (pidFile s) = None"
  using assms
  by (auto simp: start_def parseHost_def throw_def ret_def andThen_def readPidFile_eq
      isProcessRunning_eq tryCatch_def access_def mkdir_recursive_def openSync_append_def
      spawn_def await_after_spawn_def writeFile_def Date_now_def Let_def
      dest!: start_poll_exited_deletes
      split: option.splits if_splits spawn_result.splits)

lemma status_frame: "files (snd (status h s url t w)) = files w"
  by (auto simp: status_def andThen_def pingTranslationServer_eq readPidFile_eq
      isProcessRunning_eq ret_def split: option.splits)

text \<open>The reference host, its settings and a fresh start on it.\<close>

lemma reference_host_simps [simp]:
  "js_trim (reference_host net procs clock) = trim_ascii"
  "js_Number (reference_host net procs clock) = Number_decimal"
  "url_hostname (reference_host net procs clock) = hostname_of"
  "path_resolve (reference_host net procs clock) = (\<lambda>path. path)"
  "path_join (reference_host net procs clock) = posix_join"
  "path_dirname (reference_host net procs clock) = posix_dirname"
  "node_env (reference_host net procs clock) = None"
  "fetch_outcome (reference_host net procs clock) = (\<lambda>n url timeoutMs. net n)"
  "process_exists (reference_host net procs clock) = (\<lambda>n p. p \<in> set (procs n))"
  "date_now (reference_host net procs clock) = clock"
  "fs_fault (reference_host net procs clock) = (\<lambda>n. None)"
  "spawn_outcome (reference_host net procs clock) = (\<lambda>n. Spawned 4242)"
  "interrupted_write (reference_host net procs clock) = (\<lambda>n. None)"
  by (simp_all add: reference_host_def)

lemma reference_settings_simps [simp]:
  "enabled reference_settings = True"
  "sourcePath reference_settings = ''/opt/ts''"
  "nodeCommand reference_settings = ''node''"
  "pidFile reference_settings = ''/run/ts.pid''"
  "logFile reference_settings = ''/log/ts.log''"
  "startupTimeoutMs reference_settings = 20000"
  "pollIntervalMs reference_settings = 500"
  by (simp_all add: reference_settings_def)

lemma reference_parse_4242: "parse_pid (reference_host net procs clock) (pid_text (Some 4242)) = Some 4242"
  by (simp add: parse_pid_def pid_text_def show_int_def digits.simps
        trim_ascii_def is_space_def unsigned_decimal_def is_digit_def digits_value_def)

lemma reference_start_fresh:
  "start fuel (reference_host net procs clock) reference_settings ''http://localhost:1969'' fresh_world =
     start_poll fuel (reference_host net procs clock) reference_settings ''http://localhost:1969''
       (Some 4242) (clock 7 + 20000)
       \<lparr>tick = 8,
        files = [''/opt/ts/src/server.js'' \<mapsto> ''// server'', ''/log/ts.log'' \<mapsto> [],
                 ''/run/ts.pid'' \<mapsto> pid_text (Some 4242)],
        effects = [Mkdir ''/run'', Mkdir ''/log'', OpenAppend ''/log/ts.log'',
                   Spawn ''node'' [''src/server.js''] ''/opt/ts'' ''production'',
                   WriteFile ''/run/ts.pid'' (pid_text (Some 4242))]\<rparr>"
proof -
  let ?h = "reference_host net procs clock"
  have fresh: "recorded_pid ?h (pidFile reference_settings) fresh_world = None"
    by (simp add: recorded_pid_def fresh_world_def)
  then have t: "after_check ?h reference_settings fresh_world = 1"
    and e: "check_effects ?h reference_settings fresh_world = []"
    by (simp_all add: after_check_def check_effects_def fresh_world_def)
  have "start fuel ?h reference_settings ''http://localhost:1969'' fresh_world =
     start_poll fuel ?h reference_settings ''http://localhost:1969'' (Some 4242)
       (date_now ?h (after_check ?h reference_settings fresh_world + 6)
          + startupTimeoutMs reference_settings)
       \<lparr>tick = after_check ?h reference_settings fresh_world + 7,
        files = (files fresh_world)
           (logFile reference_settings \<mapsto>
              (case files fresh_world (logFile reference_settings) of
                 None \<Rightarrow> [] | Some text \<Rightarrow> text),
            pidFile reference_settings \<mapsto> pid_text (Some 4242)),
        effects = effects fresh_world @ check_effects ?h reference_settings fresh_world @
          [Mkdir (path_dirname ?h (pidFile reference_settings)),
           Mkdir (path_dirname ?h (logFile reference_settings)),
           OpenAppend (logFile reference_settings),
           Spawn (nodeCommand reference_settings) [''src/server.js'']
             (path_resolve ?h (sourcePath reference_settings))
             (case node_env ?h of None \<Rightarrow> ''production''
              | Some v \<Rightarrow> if v = [] then ''production'' else v),
           WriteFile (pidFile reference_settings) (pid_text (Some 4242))]\<rparr>"
    by (rule start_launch [where hostname = "''localhost''" and code = "''// server''"])
      (simp_all add: recorded_pid_def after_check_def hostname_of_def fresh_world_def
        trim_ascii_def is_space_def posix_join_def)
  then show ?thesis
    by (simp add: t e) (simp add: fresh_world_def posix_dirname_def)
qed

lemma reference_url [simp]:
  "hostname_of ''http://localhost:1969'' = Some ''localhost''"
  "replace_trailing_slashes ''http://localhost:1969'' = ''http://localhost:1969''"
  by (simp_all add: hostname_of_def replace_trailing_slashes_def)

section \<open>The health probe\<close>

text \<open>
  C9. The probe never raises and never stays unsettled: it returns a boolean, and the
  boolean is true exactly when the request was answered with a status code below 500. A
  network error and the abort at the timeout both give false.
\<close>

theorem pingTranslationServer_total:
  "\<exists>b w'. pingTranslationServer h url t w = (Return b, w') \<and>
     (b \<longleftrightarrow> (\<exists>code. fetch_outcome h (tick w) (replace_trailing_slashes url) t = Response code
                    \<and> code < 500))"
  by (auto simp: pingTranslationServer_eq below_500_def split: fetch_result.splits)

section \<open>status\<close>

text \<open>
  C1. When reading the record does not fail with an I/O error, \<^verbatim>\<open>status\<close> returns a
  composite, for every URL, timeout and state of the record file. Its request is made with
  the timer \<open>min 3000 timeoutMs\<close>; \<open>reachable\<close> is the answer of that request. The pid is
  what the text of the file parses to (none when the file is absent or its trimmed text
  is no integer above zero, and never a pid that is not positive), and the classification
  is \<open>Missing\<close> without a pid, \<open>Running\<close> when the pid answers signal 0 and \<open>Stopped\<close>
  when it does not: neither depends on the answer of the request. The files are left as
  they were.
\<close>

theorem status_classification:
  assumes "fs_fault h (Suc (tick w)) = None"
  shows "\<exists>w'. status h settings url t w =
      (Return \<lparr>reachable =
                 below_500 (fetch_outcome h (tick w) (replace_trailing_slashes url) (min 3000 t)),
               pid = (case files w (pidFile settings) of
                        None \<Rightarrow> None | Some raw \<Rightarrow> parse_pid h raw),
               process =
                 (case (case files w (pidFile settings) of
                          None \<Rightarrow> None | Some raw \<Rightarrow> parse_pid h raw) of
                    None \<Rightarrow> Missing
                  | Some p \<Rightarrow> if process_exists h (tick w + 2) p then Running else Stopped)\<rparr>,
       w')
      \<and> files w' = files w
      \<and> effects w' = effects w @ HttpGet (replace_trailing_slashes url) (min 3000 t) #
            (case (case files w (pidFile settings) of
                     None \<Rightarrow> None | Some raw \<Rightarrow> parse_pid h raw) of
               None \<Rightarrow> [] | Some p \<Rightarrow> [Kill p Sig0])
      \<and> (\<forall>raw. parse_pid h raw =
            (if isInteger (js_Number h (js_trim h raw)) \<and> \<not> le_zero (js_Number h (js_trim h raw))
             then Some (to_int (js_Number h (js_trim h raw))) else None))
      \<and> (\<forall>raw p. parse_pid h raw = Some p \<longrightarrow> 0 < p)"
proof -
  have run: "\<exists>w'. status h settings url t w =
      (Return \<lparr>reachable =
                 below_500 (fetch_outcome h (tick w) (replace_trailing_slashes url) (min 3000 t)),
               pid = (case files w (pidFile settings) of
                        None \<Rightarrow> None | Some raw \<Rightarrow> parse_pid h raw),
               process =
                 (case (case files w (pidFile settings) of
                          None \<Rightarrow> None | Some raw \<Rightarrow> parse_pid h raw) of
                    None \<Rightarrow> Missing
                  | Some p \<Rightarrow> if process_exists h (tick w + 2) p then Running else Stopped)\<rparr>,
       w')
      \<and> files w' = files w
      \<and> effects w' = effects w @ HttpGet (replace_trailing_slashes url) (min 3000 t) #
            (case (case files w (pidFile settings) of
                     None \<Rightarrow> None | Some raw \<Rightarrow> parse_pid h raw) of
               None \<Rightarrow> [] | Some p \<Rightarrow> [Kill p Sig0])"
    using assms
    by (auto simp: status_def andThen_def pingTranslationServer_eq readPidFile_eq
        isProcessRunning_eq ret_def dest: parse_pid_positive split: option.splits)
  have parse: "\<forall>raw. parse_pid h raw =
            (if isInteger (js_Number h (js_trim h raw)) \<and> \<not> le_zero (js_Number h (js_trim h raw))
             then Some (to_int (js_Number h (js_trim h raw))) else None)"
    by (simp add: parse_pid_def Let_def)
  have positive: "\<forall>raw p. parse_pid h raw = Some p \<longrightarrow> 0 < p"
    by (blast dest: parse_pid_positive)
  from run parse positive show ?thesis by blast
qed

theorem status_classification_witness:
  "fs_fault (reference_host (answers 404) nobody (clock_every 1000)) (Suc (tick (recorded_world (pid_text (Some 4242))))) = None
   \<and> fst (status (reference_host (answers 404) nobody (clock_every 1000)) reference_settings
           ''http://localhost:1969'' 30000 (recorded_world (pid_text (Some 4242))))
      = Return \<lparr>reachable = True, pid = Some 4242, process = Stopped\<rparr>"
proof -
  let ?h = "reference_host (answers 404) nobody (clock_every 1000)"
  let ?w = "recorded_world (pid_text (Some 4242))"
  have nofault: "fs_fault ?h (Suc (tick ?w)) = None"
    by (simp add: reference_host_def)
  have parsed: "parse_pid ?h (pid_text (Some 4242)) = Some 4242"
    by (simp add: parse_pid_def reference_host_def pid_text_def show_int_def digits.simps
        trim_ascii_def is_space_def unsigned_decimal_def is_digit_def digits_value_def)
  have "\<exists>w'. status ?h reference_settings ''http://localhost:1969'' 30000 ?w
      = (Return \<lparr>reachable = True, pid = Some 4242, process = Stopped\<rparr>, w')"
    using status_classification [OF nofault, of reference_settings "''http://localhost:1969''" 30000]
      parsed
    by (auto simp: recorded_world_def reference_settings_def reference_host_def answers_def
        nobody_def below_500_def)
  with nofault show ?thesis by auto
qed

section \<open>start\<close>

text \<open>
  C3. A URL whose host is neither \<^verbatim>\<open>127.0.0.1\<close> nor \<^verbatim>\<open>localhost\<close> makes \<^verbatim>\<open>start\<close> throw
  its "only supports localhost URLs" error in the world it was called in: no interaction
  has been made, no file has changed and nothing has been added to the effects (no
  directory, no write, no spawn).
\<close>

theorem start_rejects_other_hosts:
  assumes "url_hostname h url = Some hostname"
    and "hostname \<noteq> ''127.0.0.1''" and "hostname \<noteq> ''localhost''"
  shows "start fuel h settings url w = (Throw (NotLocalhost hostname), w)"
  using assms by (simp add: start_def parseHost_def throw_def)

theorem start_rejects_other_hosts_witness:
  "url_hostname (reference_host no_answer nobody (clock_every 1000)) ''http://example.com:1969''
     = Some ''example.com''
   \<and> ''example.com'' \<noteq> ''127.0.0.1'' \<and> ''example.com'' \<noteq> ''localhost''
   \<and> start 3 (reference_host no_answer nobody (clock_every 1000)) reference_settings
       ''http://example.com:1969'' fresh_world
       = (Throw (NotLocalhost ''example.com''), fresh_world)"
proof -
  have a: "url_hostname (reference_host no_answer nobody (clock_every 1000))
      ''http://example.com:1969'' = Some ''example.com''"
    by (simp add: reference_host_def hostname_of_def)
  have b: "''example.com'' \<noteq> ''127.0.0.1''" "''example.com'' \<noteq> ''localhost''"
    by simp_all
  show ?thesis
    using a b start_rejects_other_hosts [OF a b, of 3 reference_settings fresh_world] by simp
qed

text \<open>
  C5. \<^verbatim>\<open>start\<close> is called with a loopback URL where the record names no live pid, the
  source path is set, the server entry exists, the spawn yields the pid \<open>c\<close> and no
  file-system call of the launch fails; \<open>t\<close> is the interaction after the first check,
  \<open>d\<close> the deadline \<open>Date.now() + startupTimeoutMs\<close> the code computes. Whatever the number
  \<open>n\<close> of iterations of the poll loop that found the endpoint silent and \<open>c\<close> alive: if
  the next iteration starts before the deadline, finds the endpoint silent and finds that
  \<open>c\<close> does not answer signal 0, and the removal of the record does not fail with an I/O
  error, then \<^verbatim>\<open>start\<close> throws "exited early"; the record it wrote for \<open>c\<close> has been
  removed, as the last effect, after a signal 0 to \<open>c\<close> in every iteration; and the next
  read of the record returns none (unless that read itself fails with an I/O error).
\<close>

theorem start_exited_early_clears_record:
  fixes h :: host and s :: ServerManagementConfig and w :: world and url :: string
    and t :: nat and d :: int and u :: string
  defines "t \<equiv> after_check h s w"
    and "d \<equiv> date_now h (after_check h s w + 6) + startupTimeoutMs s"
    and "u \<equiv> replace_trailing_slashes url"
  assumes host: "url_hostname h url = Some hostname"
      "hostname = ''127.0.0.1'' \<or> hostname = ''localhost''"
    and read_ok: "fs_fault h (tick w) = None"
    and stale: "\<forall>p. recorded_pid h (pidFile s) w = Some p \<longrightarrow> \<not> process_exists h (tick w + 1) p"
    and source: "sourcePath s \<noteq> []" "js_trim h (sourcePath s) \<noteq> []"
    and entry: "files w (path_join h [path_resolve h (sourcePath s), ''src'', ''server.js'']) = Some code"
    and io_ok: "fs_fault h t = None" "fs_fault h (t + 1) = None" "fs_fault h (t + 2) = None"
      "fs_fault h (t + 3) = None" "fs_fault h (t + 5) = None"
    and spawned: "spawn_outcome h (t + 4) = Spawned c"
    and waiting: "\<forall>i<n. date_now h (t + 7 + 4 * i) < d
        \<and> \<not> below_500 (fetch_outcome h (t + 7 + 4 * i + 1) u 1500)
        \<and> process_exists h (t + 7 + 4 * i + 2) c"
    and now: "date_now h (t + 7 + 4 * n) < d"
    and silent: "\<not> below_500 (fetch_outcome h (t + 7 + 4 * n + 1) u 1500)"
    and dead: "\<not> process_exists h (t + 7 + 4 * n + 2) c"
    and unlink_ok: "fs_fault h (t + 7 + 4 * n + 3) = None"
    and fuel: "n < fuel"
  shows "\<exists>w'. start fuel h s url w = (Throw (ExitedEarly (logFile s)), w')
      \<and> tick w' = t + 7 + 4 * n + 4
      \<and> files w' = (files w)
           (logFile s \<mapsto> (case files w (logFile s) of None \<Rightarrow> [] | Some text \<Rightarrow> text),
            pidFile s := None)
      \<and> effects w' = effects w @ check_effects h s w @
           [Mkdir (path_dirname h (pidFile s)), Mkdir (path_dirname h (logFile s)),
            OpenAppend (logFile s),
            Spawn (nodeCommand s) [''src/server.js''] (path_resolve h (sourcePath s))
              (case node_env h of None \<Rightarrow> ''production''
               | Some v \<Rightarrow> if v = [] then ''production'' else v),
            WriteFile (pidFile s) (pid_text (Some c))] @
           concat (replicate n [HttpGet u 1500, Kill c Sig0]) @
           [HttpGet u 1500, Kill c Sig0, Unlink (pidFile s)]
      \<and> readPidFile h (pidFile s) w' =
          ((case fs_fault h (tick w') of
              None \<Rightarrow> Return None
            | Some code \<Rightarrow> if code = ''ENOENT'' then Return None else Throw (IOFailure code)),
           step w')"
proof -
  let ?w0 = "\<lparr>tick = t + 7,
        files = (files w)
           (logFile s \<mapsto> (case files w (logFile s) of None \<Rightarrow> [] | Some text \<Rightarrow> text),
            pidFile s \<mapsto> pid_text (Some c)),
        effects = effects w @ check_effects h s w @
          [Mkdir (path_dirname h (pidFile s)), Mkdir (path_dirname h (logFile s)),
           OpenAppend (logFile s),
           Spawn (nodeCommand s) [''src/server.js''] (path_resolve h (sourcePath s))
             (case node_env h of None \<Rightarrow> ''production''
              | Some v \<Rightarrow> if v = [] then ''production'' else v),
           WriteFile (pidFile s) (pid_text (Some c))]\<rparr>"
  have launched: "start fuel h s url w = start_poll fuel h s url (Some c) d ?w0"
    unfolding t_def d_def
    by (rule start_launch [OF host read_ok stale source entry io_ok [unfolded t_def]
          spawned [unfolded t_def]])
  have tk: "tick ?w0 = t + 7" and pp: "polled_pid (Some c) = c"
    by (simp_all add: polled_pid_def)
  have present: "files ?w0 (pidFile s) = Some (pid_text (Some c))" by simp
  have died: "start_poll fuel h s url (Some c) d ?w0 =
     (Throw (ExitedEarly (logFile s)),
      \<lparr>tick = tick ?w0 + 4 * n + 4,
       files = (files ?w0)(pidFile s := None),
       effects = effects ?w0 @
         concat (replicate n [HttpGet (replace_trailing_slashes url) 1500,
                              Kill (polled_pid (Some c)) Sig0]) @
         [HttpGet (replace_trailing_slashes url) 1500, Kill (polled_pid (Some c)) Sig0,
          Unlink (pidFile s)]\<rparr>)"
  proof (rule start_poll_child_dead [OF _ _ _ _ _ present fuel])
    show "\<forall>i<n. date_now h (tick ?w0 + 4 * i) < d
        \<and> \<not> below_500 (fetch_outcome h (tick ?w0 + 4 * i + 1) (replace_trailing_slashes url) 1500)
        \<and> process_exists h (tick ?w0 + 4 * i + 2) (polled_pid (Some c))"
      using waiting unfolding tk pp u_def by assumption
    show "date_now h (tick ?w0 + 4 * n) < d"
      using now unfolding tk by assumption
    show "\<not> below_500 (fetch_outcome h (tick ?w0 + 4 * n + 1) (replace_trailing_slashes url) 1500)"
      using silent unfolding tk u_def by assumption
    show "\<not> process_exists h (tick ?w0 + 4 * n + 2) (polled_pid (Some c))"
      using dead unfolding tk pp by assumption
    show "fs_fault h (tick ?w0 + 4 * n + 3) = None"
      using unlink_ok unfolding tk by assumption
  qed
  let ?w' = "\<lparr>tick = tick ?w0 + 4 * n + 4,
       files = (files ?w0)(pidFile s := None),
       effects = effects ?w0 @
         concat (replicate n [HttpGet (replace_trailing_slashes url) 1500,
                              Kill (polled_pid (Some c)) Sig0]) @
         [HttpGet (replace_trailing_slashes url) 1500, Kill (polled_pid (Some c)) Sig0,
          Unlink (pidFile s)]\<rparr>"
  have gone: "files ?w' (pidFile s) = None" by simp
  have again: "readPidFile h (pidFile s) ?w' =
          ((case fs_fault h (tick ?w') of
              None \<Rightarrow> Return None
            | Some code \<Rightarrow> if code = ''ENOENT'' then Return None else Throw (IOFailure code)),
           step ?w')"
    using gone by (simp add: readPidFile_eq split: option.splits)
  show ?thesis
  proof (intro exI conjI)
    show "start fuel h s url w = (Throw (ExitedEarly (logFile s)), ?w')"
      by (rule trans [OF launched died])
    show "tick ?w' = t + 7 + 4 * n + 4" by simp
    show "files ?w' = (files w)
           (logFile s \<mapsto> (case files w (logFile s) of None \<Rightarrow> [] | Some text \<Rightarrow> text),
            pidFile s := None)"
      by simp
    show "effects ?w' = effects w @ check_effects h s w @
           [Mkdir (path_dirname h (pidFile s)), Mkdir (path_dirname h (logFile s)),
            OpenAppend (logFile s),
            Spawn (nodeCommand s) [''src/server.js''] (path_resolve h (sourcePath s))
              (case node_env h of None \<Rightarrow> ''production''
               | Some v \<Rightarrow> if v = [] then ''production'' else v),
            WriteFile (pidFile s) (pid_text (Some c))] @
           concat (replicate n [HttpGet u 1500, Kill c Sig0]) @
           [HttpGet u 1500, Kill c Sig0, Unlink (pidFile s)]"
      by (simp add: pp u_def)
    show "readPidFile h (pidFile s) ?w' =
          ((case fs_fault h (tick ?w') of
              None \<Rightarrow> Return None
            | Some code \<Rightarrow> if code = ''ENOENT'' then Return None else Throw (IOFailure code)),
           step ?w')"
      by (rule again)
  qed
qed

text \<open>A fresh machine where the child 4242 lives through one iteration and is gone at the second.\<close>

theorem start_exited_early_clears_record_witness:
  "fst (start 3 (reference_host no_answer (lives_until 14 4242) (clock_every 1000)) reference_settings
          ''http://localhost:1969'' fresh_world) = Throw (ExitedEarly ''/log/ts.log'')
   \<and> files (snd (start 3 (reference_host no_answer (lives_until 14 4242) (clock_every 1000))
          reference_settings ''http://localhost:1969'' fresh_world)) ''/run/ts.pid'' = None
   \<and> effects (snd (start 3 (reference_host no_answer (lives_until 14 4242) (clock_every 1000))
          reference_settings ''http://localhost:1969'' fresh_world))
       = [Mkdir ''/run'', Mkdir ''/log'', OpenAppend ''/log/ts.log'',
          Spawn ''node'' [''src/server.js''] ''/opt/ts'' ''production'',
          WriteFile ''/run/ts.pid'' (pid_text (Some 4242)),
          HttpGet ''http://localhost:1969'' 1500, Kill 4242 Sig0,
          HttpGet ''http://localhost:1969'' 1500, Kill 4242 Sig0,
          Unlink ''/run/ts.pid'']
   \<and> fst (readPidFile (reference_host no_answer (lives_until 14 4242) (clock_every 1000)) ''/run/ts.pid''
         (snd (start 3 (reference_host no_answer (lives_until 14 4242) (clock_every 1000))
          reference_settings ''http://localhost:1969'' fresh_world))) = Return None"
proof -
  let ?h = "reference_host no_answer (lives_until 14 4242) (clock_every 1000)"
  let ?url = "''http://localhost:1969''"
  have fresh: "recorded_pid ?h (pidFile reference_settings) fresh_world = None"
    by (simp add: recorded_pid_def fresh_world_def)
  then have t: "after_check ?h reference_settings fresh_world = 1"
    and e: "check_effects ?h reference_settings fresh_world = []"
    by (simp_all add: after_check_def check_effects_def fresh_world_def)
  have host: "url_hostname ?h ?url = Some ''localhost''" by simp
  have loopback: "''localhost'' = ''127.0.0.1'' \<or> ''localhost'' = ''localhost''" by simp
  have read_ok: "fs_fault ?h (tick fresh_world) = None" by simp
  have stale: "\<forall>p. recorded_pid ?h (pidFile reference_settings) fresh_world = Some p
      \<longrightarrow> \<not> process_exists ?h (tick fresh_world + 1) p"
    using fresh by simp
  have source: "sourcePath reference_settings \<noteq> []"
      "js_trim ?h (sourcePath reference_settings) \<noteq> []"
    by (simp_all add: trim_ascii_def is_space_def)
  have entry: "files fresh_world
      (path_join ?h [path_resolve ?h (sourcePath reference_settings), ''src'', ''server.js''])
      = Some ''// server''"
    by (simp add: fresh_world_def posix_join_def)
  have io_ok: "fs_fault ?h (after_check ?h reference_settings fresh_world) = None"
      "fs_fault ?h (after_check ?h reference_settings fresh_world + 1) = None"
      "fs_fault ?h (after_check ?h reference_settings fresh_world + 2) = None"
      "fs_fault ?h (after_check ?h reference_settings fresh_world + 3) = None"
      "fs_fault ?h (after_check ?h reference_settings fresh_world + 5) = None"
    by simp_all
  have spawned: "spawn_outcome ?h (after_check ?h reference_settings fresh_world + 4) = Spawned 4242"
    by simp
  have waiting: "\<forall>i<1. date_now ?h (after_check ?h reference_settings fresh_world + 7 + 4 * i)
          < date_now ?h (after_check ?h reference_settings fresh_world + 6)
            + startupTimeoutMs reference_settings
        \<and> \<not> below_500 (fetch_outcome ?h (after_check ?h reference_settings fresh_world + 7 + 4 * i + 1)
              (replace_trailing_slashes ?url) 1500)
        \<and> process_exists ?h (after_check ?h reference_settings fresh_world + 7 + 4 * i + 2) 4242"
    by (simp add: t clock_every_def no_answer_def below_500_def lives_until_def)
  have now: "date_now ?h (after_check ?h reference_settings fresh_world + 7 + 4 * 1)
      < date_now ?h (after_check ?h reference_settings fresh_world + 6)
        + startupTimeoutMs reference_settings"
    by (simp add: t clock_every_def)
  have silent: "\<not> below_500 (fetch_outcome ?h (after_check ?h reference_settings fresh_world + 7 + 4 * 1 + 1)
      (replace_trailing_slashes ?url) 1500)"
    by (simp add: no_answer_def below_500_def)
  have dead: "\<not> process_exists ?h (after_check ?h reference_settings fresh_world + 7 + 4 * 1 + 2) 4242"
    by (simp add: t lives_until_def)
  have unlink_ok: "fs_fault ?h (after_check ?h reference_settings fresh_world + 7 + 4 * 1 + 3) = None"
    by simp
  have fuel: "(1::nat) < 3" by simp
  from start_exited_early_clears_record [OF host loopback read_ok stale source entry io_ok spawned
      waiting now silent dead unlink_ok fuel]
  obtain w' where run: "start 3 ?h reference_settings ?url fresh_world
        = (Throw (ExitedEarly (logFile reference_settings)), w')"
    and fl: "files w' = (files fresh_world)
           (logFile reference_settings \<mapsto>
              (case files fresh_world (logFile reference_settings) of
                 None \<Rightarrow> [] | Some text \<Rightarrow> text),
            pidFile reference_settings := None)"
    and ef: "effects w' = effects fresh_world @ check_effects ?h reference_settings fresh_world @
           [Mkdir (path_dirname ?h (pidFile reference_settings)),
            Mkdir (path_dirname ?h (logFile reference_settings)),
            OpenAppend (logFile reference_settings),
            Spawn (nodeCommand reference_settings) [''src/server.js'']
              (path_resolve ?h (sourcePath reference_settings))
              (case node_env ?h of None \<Rightarrow> ''production''
               | Some v \<Rightarrow> if v = [] then ''production'' else v),
            WriteFile (pidFile reference_settings) (pid_text (Some 4242))] @
           concat (replicate 1 [HttpGet (replace_trailing_slashes ?url) 1500, Kill 4242 Sig0]) @
           [HttpGet (replace_trailing_slashes ?url) 1500, Kill 4242 Sig0,
            Unlink (pidFile reference_settings)]"
    and rd: "readPidFile ?h (pidFile reference_settings) w' =
          ((case fs_fault ?h (tick w') of
              None \<Rightarrow> Return None
            | Some code \<Rightarrow> if code = ''ENOENT'' then Return None else Throw (IOFailure code)),
           step w')"
    by blast
  have a: "fst (start 3 ?h reference_settings ?url fresh_world) = Throw (ExitedEarly ''/log/ts.log'')"
    by (simp add: run)
  have b: "files (snd (start 3 ?h reference_settings ?url fresh_world)) ''/run/ts.pid'' = None"
    by (simp add: run fl)
  have c: "effects (snd (start 3 ?h reference_settings ?url fresh_world))
       = [Mkdir ''/run'', Mkdir ''/log'', OpenAppend ''/log/ts.log'',
          Spawn ''node'' [''src/server.js''] ''/opt/ts'' ''production'',
          WriteFile ''/run/ts.pid'' (pid_text (Some 4242)),
          HttpGet ''http://localhost:1969'' 1500, Kill 4242 Sig0,
          HttpGet ''http://localhost:1969'' 1500, Kill 4242 Sig0,
          Unlink ''/run/ts.pid'']"
  proof -
    have "effects w'
       = [Mkdir ''/run'', Mkdir ''/log'', OpenAppend ''/log/ts.log'',
          Spawn ''node'' [''src/server.js''] ''/opt/ts'' ''production'',
          WriteFile ''/run/ts.pid'' (pid_text (Some 4242)),
          HttpGet ''http://localhost:1969'' 1500, Kill 4242 Sig0,
          HttpGet ''http://localhost:1969'' 1500, Kill 4242 Sig0,
          Unlink ''/run/ts.pid'']"
      using ef unfolding e by (simp add: fresh_world_def posix_dirname_def)
    then show ?thesis by (simp add: run)
  qed
  have d: "fst (readPidFile ?h ''/run/ts.pid''
         (snd (start 3 ?h reference_settings ?url fresh_world))) = Return None"
    using rd by (simp add: run)
  from a b c d show ?thesis by (simp only: simp_thms)
qed

text \<open>
  C6. With the same launch: if \<open>n\<close> iterations of the poll loop found the endpoint
  silent and the child \<open>c\<close> alive, and the clock has reached the deadline
  \<open>Date.now() + startupTimeoutMs\<close> when the loop head is evaluated next, then \<^verbatim>\<open>start\<close>
  throws "did not become ready within startupTimeoutMs"; the record file holds the text
  of \<open>c\<close> that was written after the spawn, and nothing has removed it.
\<close>

theorem start_timeout_keeps_record:
  fixes h :: host and s :: ServerManagementConfig and w :: world and url :: string
    and t :: nat and d :: int and u :: string
  defines "t \<equiv> after_check h s w"
    and "d \<equiv> date_now h (after_check h s w + 6) + startupTimeoutMs s"
    and "u \<equiv> replace_trailing_slashes url"
  assumes host: "url_hostname h url = Some hostname"
      "hostname = ''127.0.0.1'' \<or> hostname = ''localhost''"
    and read_ok: "fs_fault h (tick w) = None"
    and stale: "\<forall>p. recorded_pid h (pidFile s) w = Some p \<longrightarrow> \<not> process_exists h (tick w + 1) p"
    and source: "sourcePath s \<noteq> []" "js_trim h (sourcePath s) \<noteq> []"
    and entry: "files w (path_join h [path_resolve h (sourcePath s), ''src'', ''server.js'']) = Some code"
    and io_ok: "fs_fault h t = None" "fs_fault h (t + 1) = None" "fs_fault h (t + 2) = None"
      "fs_fault h (t + 3) = None" "fs_fault h (t + 5) = None"
    and spawned: "spawn_outcome h (t + 4) = Spawned c"
    and waiting: "\<forall>i<n. date_now h (t + 7 + 4 * i) < d
        \<and> \<not> below_500 (fetch_outcome h (t + 7 + 4 * i + 1) u 1500)
        \<and> process_exists h (t + 7 + 4 * i + 2) c"
    and elapsed: "d \<le> date_now h (t + 7 + 4 * n)"
    and fuel: "n < fuel"
  shows "\<exists>w'. start fuel h s url w = (Throw (NotReadyWithin (startupTimeoutMs s)), w')
      \<and> files w' = (files w)
           (logFile s \<mapsto> (case files w (logFile s) of None \<Rightarrow> [] | Some text \<Rightarrow> text),
            pidFile s \<mapsto> pid_text (Some c))
      \<and> files w' (pidFile s) = Some (pid_text (Some c))
      \<and> effects w' = effects w @ check_effects h s w @
           [Mkdir (path_dirname h (pidFile s)), Mkdir (path_dirname h (logFile s)),
            OpenAppend (logFile s),
            Spawn (nodeCommand s) [''src/server.js''] (path_resolve h (sourcePath s))
              (case node_env h of None \<Rightarrow> ''production''
               | Some v \<Rightarrow> if v = [] then ''production'' else v),
            WriteFile (pidFile s) (pid_text (Some c))] @
           concat (replicate n [HttpGet u 1500, Kill c Sig0])"
proof -
  let ?w0 = "\<lparr>tick = t + 7,
        files = (files w)
           (logFile s \<mapsto> (case files w (logFile s) of None \<Rightarrow> [] | Some text \<Rightarrow> text),
            pidFile s \<mapsto> pid_text (Some c)),
        effects = effects w @ check_effects h s w @
          [Mkdir (path_dirname h (pidFile s)), Mkdir (path_dirname h (logFile s)),
           OpenAppend (logFile s),
           Spawn (nodeCommand s) [''src/server.js''] (path_resolve h (sourcePath s))
             (case node_env h of None \<Rightarrow> ''production''
              | Some v \<Rightarrow> if v = [] then ''production'' else v),
           WriteFile (pidFile s) (pid_text (Some c))]\<rparr>"
  have launched: "start fuel h s url w = start_poll fuel h s url (Some c) d ?w0"
    unfolding t_def d_def
    by (rule start_launch [OF host read_ok stale source entry io_ok [unfolded t_def]
          spawned [unfolded t_def]])
  have tk: "tick ?w0 = t + 7" and pp: "polled_pid (Some c) = c"
    by (simp_all add: polled_pid_def)
  have late: "start_poll fuel h s url (Some c) d ?w0 =
     (Throw (NotReadyWithin (startupTimeoutMs s)),
      \<lparr>tick = tick ?w0 + 4 * n + 1,
       files = files ?w0,
       effects = effects ?w0 @
         concat (replicate n [HttpGet (replace_trailing_slashes url) 1500,
                              Kill (polled_pid (Some c)) Sig0])\<rparr>)"
  proof (rule start_poll_deadline [OF _ _ fuel])
    show "\<forall>i<n. date_now h (tick ?w0 + 4 * i) < d
        \<and> \<not> below_500 (fetch_outcome h (tick ?w0 + 4 * i + 1) (replace_trailing_slashes url) 1500)
        \<and> process_exists h (tick ?w0 + 4 * i + 2) (polled_pid (Some c))"
      using waiting unfolding tk pp u_def by assumption
    show "d \<le> date_now h (tick ?w0 + 4 * n)"
      using elapsed unfolding tk by assumption
  qed
  let ?w' = "\<lparr>tick = tick ?w0 + 4 * n + 1,
       files = files ?w0,
       effects = effects ?w0 @
         concat (replicate n [HttpGet (replace_trailing_slashes url) 1500,
                              Kill (polled_pid (Some c)) Sig0])\<rparr>"
  show ?thesis
  proof (intro exI conjI)
    show "start fuel h s url w = (Throw (NotReadyWithin (startupTimeoutMs s)), ?w')"
      by (rule trans [OF launched late])
    show "files ?w' = (files w)
           (logFile s \<mapsto> (case files w (logFile s) of None \<Rightarrow> [] | Some text \<Rightarrow> text),
            pidFile s \<mapsto> pid_text (Some c))"
      by simp
    show "files ?w' (pidFile s) = Some (pid_text (Some c))" by simp
    show "effects ?w' = effects w @ check_effects h s w @
           [Mkdir (path_dirname h (pidFile s)), Mkdir (path_dirname h (logFile s)),
            OpenAppend (logFile s),
            Spawn (nodeCommand s) [''src/server.js''] (path_resolve h (sourcePath s))
              (case node_env h of None \<Rightarrow> ''production''
               | Some v \<Rightarrow> if v = [] then ''production'' else v),
            WriteFile (pidFile s) (pid_text (Some c))] @
           concat (replicate n [HttpGet u 1500, Kill c Sig0])"
      by (simp add: pp u_def)
  qed
qed

text \<open>
  A machine whose record names the dead pid 77: the record is overwritten with 4242, which
  lives on while the endpoint stays silent.
\<close>

theorem start_timeout_keeps_record_witness:
  "fst (start 3 (reference_host no_answer (lives 4242) (clock_every 2500)) reference_settings
          ''http://localhost:1969'' (recorded_world (pid_text (Some 77))))
     = Throw (NotReadyWithin 20000)
   \<and> files (snd (start 3 (reference_host no_answer (lives 4242) (clock_every 2500))
          reference_settings ''http://localhost:1969'' (recorded_world (pid_text (Some 77)))))
        ''/run/ts.pid'' = Some (pid_text (Some 4242))
   \<and> effects (snd (start 3 (reference_host no_answer (lives 4242) (clock_every 2500))
          reference_settings ''http://localhost:1969'' (recorded_world (pid_text (Some 77)))))
       = [Kill 77 Sig0, Mkdir ''/run'', Mkdir ''/log'', OpenAppend ''/log/ts.log'',
          Spawn ''node'' [''src/server.js''] ''/opt/ts'' ''production'',
          WriteFile ''/run/ts.pid'' (pid_text (Some 4242)),
          HttpGet ''http://localhost:1969'' 1500, Kill 4242 Sig0,
          HttpGet ''http://localhost:1969'' 1500, Kill 4242 Sig0]"
proof -
  let ?h = "reference_host no_answer (lives 4242) (clock_every 2500)"
  let ?url = "''http://localhost:1969''"
  let ?w = "recorded_world (pid_text (Some 77))"
  have "parse_pid ?h (pid_text (Some 77)) = Some 77"
    by (simp add: parse_pid_def pid_text_def show_int_def digits.simps
        trim_ascii_def is_space_def unsigned_decimal_def is_digit_def digits_value_def)
  then have old: "recorded_pid ?h (pidFile reference_settings) ?w = Some 77"
    by (simp add: recorded_pid_def recorded_world_def)
  then have t: "after_check ?h reference_settings ?w = 2"
    and e: "check_effects ?h reference_settings ?w = [Kill 77 Sig0]"
    by (simp_all add: after_check_def check_effects_def recorded_world_def)
  have host: "url_hostname ?h ?url = Some ''localhost''" by simp
  have loopback: "''localhost'' = ''127.0.0.1'' \<or> ''localhost'' = ''localhost''" by simp
  have read_ok: "fs_fault ?h (tick ?w) = None" by simp
  have stale: "\<forall>p. recorded_pid ?h (pidFile reference_settings) ?w = Some p
      \<longrightarrow> \<not> process_exists ?h (tick ?w + 1) p"
    using old by (simp add: lives_def)
  have source: "sourcePath reference_settings \<noteq> []"
      "js_trim ?h (sourcePath reference_settings) \<noteq> []"
    by (simp_all add: trim_ascii_def is_space_def)
  have entry: "files ?w
      (path_join ?h [path_resolve ?h (sourcePath reference_settings), ''src'', ''server.js''])
      = Some ''// server''"
    by (simp add: recorded_world_def posix_join_def)
  have io_ok: "fs_fault ?h (after_check ?h reference_settings ?w) = None"
      "fs_fault ?h (after_check ?h reference_settings ?w + 1) = None"
      "fs_fault ?h (after_check ?h reference_settings ?w + 2) = None"
      "fs_fault ?h (after_check ?h reference_settings ?w + 3) = None"
      "fs_fault ?h (after_check ?h reference_settings ?w + 5) = None"
    by simp_all
  have spawned: "spawn_outcome ?h (after_check ?h reference_settings ?w + 4) = Spawned 4242"
    by simp
  have waiting: "\<forall>i<2. date_now ?h (after_check ?h reference_settings ?w + 7 + 4 * i)
          < date_now ?h (after_check ?h reference_settings ?w + 6)
            + startupTimeoutMs reference_settings
        \<and> \<not> below_500 (fetch_outcome ?h (after_check ?h reference_settings ?w + 7 + 4 * i + 1)
              (replace_trailing_slashes ?url) 1500)
        \<and> process_exists ?h (after_check ?h reference_settings ?w + 7 + 4 * i + 2) 4242"
    by (simp add: t clock_every_def no_answer_def below_500_def lives_def)
  have elapsed: "date_now ?h (after_check ?h reference_settings ?w + 6)
        + startupTimeoutMs reference_settings
      \<le> date_now ?h (after_check ?h reference_settings ?w + 7 + 4 * 2)"
    by (simp add: t clock_every_def)
  have fuel: "(2::nat) < 3" by simp
  from start_timeout_keeps_record [OF host loopback read_ok stale source entry io_ok spawned
      waiting elapsed fuel]
  obtain w' where run: "start 3 ?h reference_settings ?url ?w
        = (Throw (NotReadyWithin (startupTimeoutMs reference_settings)), w')"
    and fl: "files w' (pidFile reference_settings) = Some (pid_text (Some 4242))"
    and ef: "effects w' = effects ?w @ check_effects ?h reference_settings ?w @
           [Mkdir (path_dirname ?h (pidFile reference_settings)),
            Mkdir (path_dirname ?h (logFile reference_settings)),
            OpenAppend (logFile reference_settings),
            Spawn (nodeCommand reference_settings) [''src/server.js'']
              (path_resolve ?h (sourcePath reference_settings))
              (case node_env ?h of None \<Rightarrow> ''production''
               | Some v \<Rightarrow> if v = [] then ''production'' else v),
            WriteFile (pidFile reference_settings) (pid_text (Some 4242))] @
           concat (replicate 2 [HttpGet (replace_trailing_slashes ?url) 1500, Kill 4242 Sig0])"
    by blast
  have a: "fst (start 3 ?h reference_settings ?url ?w) = Throw (NotReadyWithin 20000)"
    by (simp add: run)
  have b: "files (snd (start 3 ?h reference_settings ?url ?w)) ''/run/ts.pid''
      = Some (pid_text (Some 4242))"
    using fl by (simp add: run)
  have c: "effects (snd (start 3 ?h reference_settings ?url ?w))
       = [Kill 77 Sig0, Mkdir ''/run'', Mkdir ''/log'', OpenAppend ''/log/ts.log'',
          Spawn ''node'' [''src/server.js''] ''/opt/ts'' ''production'',
          WriteFile ''/run/ts.pid'' (pid_text (Some 4242)),
          HttpGet ''http://localhost:1969'' 1500, Kill 4242 Sig0,
          HttpGet ''http://localhost:1969'' 1500, Kill 4242 Sig0]"
  proof -
    have "effects w'
       = [Kill 77 Sig0, Mkdir ''/run'', Mkdir ''/log'', OpenAppend ''/log/ts.log'',
          Spawn ''node'' [''src/server.js''] ''/opt/ts'' ''production'',
          WriteFile ''/run/ts.pid'' (pid_text (Some 4242)),
          HttpGet ''http://localhost:1969'' 1500, Kill 4242 Sig0,
          HttpGet ''http://localhost:1969'' 1500, Kill 4242 Sig0]"
      using ef unfolding e
      by (simp add: recorded_world_def posix_dirname_def numeral_2_eq_2)
    then show ?thesis by (simp add: run)
  qed
  from a b c show ?thesis by (simp only: simp_thms)
qed

text \<open>
  C4. In every world whose record file holds a pid that answers signal 0 (and can be
  read), \<^verbatim>\<open>start\<close> with a loopback URL returns; it has changed no file and its only effect is
  the signal 0 of the liveness check: nothing is spawned. So when that world is the one a
  first successful \<^verbatim>\<open>start\<close> left, the two calls together have spawned at most once.
\<close>

theorem start_noop_while_alive:
  assumes host: "url_hostname h url = Some hostname"
      "hostname = ''127.0.0.1'' \<or> hostname = ''localhost''"
    and read_ok: "fs_fault h (tick w) = None"
    and recorded: "files w (pidFile s) = Some raw" "parse_pid h raw = Some p"
    and alive: "process_exists h (tick w + 1) p"
  shows "(\<exists>w'. start fuel h s url w = (Return (), w')
            \<and> files w' = files w \<and> effects w' = effects w @ [Kill p Sig0])
       \<and> (\<forall>fuel0 w0. start fuel0 h s url w0 = (Return (), w) \<longrightarrow>
             length (filter is_spawn (effects (snd (start fuel h s url w))))
               \<le> Suc (length (filter is_spawn (effects w0))))"
proof -
  from recorded have nonzero: "p \<noteq> 0"
    by (auto dest: parse_pid_positive)
  have run: "start fuel h s url w = (Return (), emit (Kill p Sig0) (step w))"
    using host read_ok recorded nonzero alive
    by (auto simp: start_def parseHost_def andThen_def readPidFile_eq isProcessRunning_eq ret_def)
  have twice: "length (filter is_spawn (effects (snd (start fuel h s url w))))
               \<le> Suc (length (filter is_spawn (effects w0)))"
    if first: "start fuel0 h s url w0 = (Return (), w)" for fuel0 w0
  proof -
    have "length (filter is_spawn (effects (snd (start fuel h s url w))))
        = length (filter is_spawn (effects w))"
      by (simp add: run)
    also have "\<dots> = length (filter is_spawn (effects (snd (start fuel0 h s url w0))))"
      by (simp add: first)
    also have "\<dots> \<le> Suc (length (filter is_spawn (effects w0)))"
      by (rule start_spawns)
    finally show ?thesis .
  qed
  from run twice show ?thesis by simp
qed

text \<open>
  Two calls in a row: the first spawns pid 4242, records it and sees the endpoint answer;
  the second finds the record alive.
\<close>

theorem start_noop_while_alive_witness:
  "start 3 (reference_host (answers 200) (lives 4242) (clock_every 1000)) reference_settings
      ''http://localhost:1969'' fresh_world = (Return (), started_world)
   \<and> fst (start 3 (reference_host (answers 200) (lives 4242) (clock_every 1000)) reference_settings
      ''http://localhost:1969'' started_world) = Return ()
   \<and> files (snd (start 3 (reference_host (answers 200) (lives 4242) (clock_every 1000))
      reference_settings ''http://localhost:1969'' started_world)) = files started_world
   \<and> effects (snd (start 3 (reference_host (answers 200) (lives 4242) (clock_every 1000))
      reference_settings ''http://localhost:1969'' started_world))
        = effects started_world @ [Kill 4242 Sig0]
   \<and> length (filter is_spawn (effects (snd (start 3
        (reference_host (answers 200) (lives 4242) (clock_every 1000))
        reference_settings ''http://localhost:1969'' started_world)))) \<le> 1"
proof -
  let ?h = "reference_host (answers 200) (lives 4242) (clock_every 1000)"
  let ?url = "''http://localhost:1969''"
  have first: "start 3 ?h reference_settings ?url fresh_world = (Return (), started_world)"
    by (simp add: reference_start_fresh started_world_def numeral_3_eq_3 andThen_def Date_now_def
        pingTranslationServer_eq clock_every_def answers_def below_500_def ret_def step_def
        emit_def)
  have host: "url_hostname ?h ?url = Some ''localhost''" by simp
  have loopback: "''localhost'' = ''127.0.0.1'' \<or> ''localhost'' = ''localhost''" by simp
  have read_ok: "fs_fault ?h (tick started_world) = None" by simp
  have recorded: "files started_world (pidFile reference_settings) = Some (pid_text (Some 4242))"
    by (simp add: started_world_def)
  have parsed: "parse_pid ?h (pid_text (Some 4242)) = Some 4242"
    by (rule reference_parse_4242)
  have alive: "process_exists ?h (tick started_world + 1) 4242" by (simp add: lives_def)
  note second = start_noop_while_alive [OF host loopback read_ok recorded parsed alive, of 3]
  from second obtain w' where run:
    "start 3 ?h reference_settings ?url started_world = (Return (), w')"
    "files w' = files started_world" "effects w' = effects started_world @ [Kill 4242 Sig0]"
    by blast
  from second first
  have "length (filter is_spawn (effects (snd (start 3 ?h reference_settings ?url started_world))))
      \<le> Suc (length (filter is_spawn (effects fresh_world)))"
    by blast
  then have once: "length (filter is_spawn (effects (snd (start 3 ?h reference_settings ?url
      started_world)))) \<le> 1"
    by (simp add: fresh_world_def)
  from first run once show ?thesis by simp
qed

section \<open>stop\<close>




text \<open>
  C10. A pid is read from the record only when the trimmed text of the file is a number
  that \<^verbatim>\<open>Number.isInteger\<close> accepts and that is not \<^verbatim>\<open><= 0\<close>; any other text gives none;
  so a pid returned by \<^verbatim>\<open>readPidFile\<close> is above zero. Every \<^verbatim>\<open>process.kill\<close> that \<^verbatim>\<open>stop\<close>
  has made (signal 0, SIGTERM or SIGKILL), at whatever point of its run, has a pid above
  zero.
\<close>

theorem stop_signals_positive_pids:
  "(\<forall>raw p. parse_pid h raw = Some p \<longrightarrow>
       0 < p \<and> isInteger (js_Number h (js_trim h raw)) \<and> \<not> le_zero (js_Number h (js_trim h raw)))
   \<and> (\<forall>raw. \<not> isInteger (js_Number h (js_trim h raw)) \<or> le_zero (js_Number h (js_trim h raw))
         \<longrightarrow> parse_pid h raw = None)
   \<and> (\<forall>path p w'. readPidFile h path w = (Return (Some p), w') \<longrightarrow> 0 < p)
   \<and> (\<exists>es. effects (snd (stop fuel h s w)) = effects w @ es
         \<and> (\<forall>e\<in>set es. \<forall>q sg. e = Kill q sg \<longrightarrow> 0 < q))"
proof -
  have a: "\<forall>raw p. parse_pid h raw = Some p \<longrightarrow>
       0 < p \<and> isInteger (js_Number h (js_trim h raw)) \<and> \<not> le_zero (js_Number h (js_trim h raw))"
  proof (intro allI impI conjI)
    fix raw p assume parsed: "parse_pid h raw = Some p"
    then show "0 < p" by (rule parse_pid_positive)
    from parsed show "isInteger (js_Number h (js_trim h raw))"
      by (simp add: parse_pid_def Let_def split: if_splits)
    from parsed show "\<not> le_zero (js_Number h (js_trim h raw))"
      by (simp add: parse_pid_def Let_def split: if_splits)
  qed
  have b: "\<forall>raw. \<not> isInteger (js_Number h (js_trim h raw)) \<or> le_zero (js_Number h (js_trim h raw))
         \<longrightarrow> parse_pid h raw = None"
    by (simp add: parse_pid_def Let_def)
  have c: "\<forall>path p w'. readPidFile h path w = (Return (Some p), w') \<longrightarrow> 0 < p"
    by (auto simp: readPidFile_eq dest: parse_pid_positive split: option.splits if_splits)
  from a b c stop_signals [of fuel h s w] show ?thesis by blast
qed

text \<open>The texts \<^verbatim>\<open>0\<close>, \<^verbatim>\<open>-5\<close>, the empty text and \<^verbatim>\<open>abc\<close> on the reference host.\<close>

theorem stop_signals_positive_pids_witness:
  "parse_pid (reference_host no_answer (lives 4242) (clock_every 1000)) ''0'' = None
   \<and> parse_pid (reference_host no_answer (lives 4242) (clock_every 1000)) ''-5'' = None
   \<and> parse_pid (reference_host no_answer (lives 4242) (clock_every 1000)) [] = None
   \<and> parse_pid (reference_host no_answer (lives 4242) (clock_every 1000)) ''abc'' = None
   \<and> Kill 0 SIGTERM \<notin> set (effects (snd (stop 3
         (reference_host no_answer (lives 4242) (clock_every 1000)) reference_settings
         (recorded_world (pid_text (Some 4242))))))
   \<and> Kill (- 1) SIGKILL \<notin> set (effects (snd (stop 3
         (reference_host no_answer (lives 4242) (clock_every 1000)) reference_settings
         (recorded_world (pid_text (Some 4242))))))"
proof -
  let ?h = "reference_host no_answer (lives 4242) (clock_every 1000)"
  let ?w = "recorded_world (pid_text (Some 4242))"
  note all = stop_signals_positive_pids [where h = ?h and fuel = 3 and s = reference_settings and w = ?w]
  from all have none: "\<not> isInteger (js_Number ?h (js_trim ?h raw)) \<or> le_zero (js_Number ?h (js_trim ?h raw))
      \<Longrightarrow> parse_pid ?h raw = None" for raw
    by blast
  have p1: "parse_pid ?h ''0'' = None"
    by (rule none) (simp add: trim_ascii_def is_space_def unsigned_decimal_def is_digit_def
        digits_value_def)
  have p2: "parse_pid ?h ''-5'' = None"
    by (rule none) (simp add: trim_ascii_def is_space_def unsigned_decimal_def is_digit_def
        digits_value_def)
  have p3: "parse_pid ?h [] = None"
    by (rule none) (simp add: trim_ascii_def is_space_def)
  have p4: "parse_pid ?h ''abc'' = None"
    by (rule none) (simp add: trim_ascii_def is_space_def unsigned_decimal_def is_digit_def)
  from all obtain es where es: "effects (snd (stop 3 ?h reference_settings ?w)) = effects ?w @ es"
    "\<forall>e\<in>set es. \<forall>q sg. e = Kill q sg \<longrightarrow> 0 < q"
    by blast
  have "effects ?w = []" by (simp add: recorded_world_def)
  with es(1) have eq: "effects (snd (stop 3 ?h reference_settings ?w)) = es" by simp
  from es(2) have k1: "Kill 0 SIGTERM \<notin> set es" and k2: "Kill (- 1) SIGKILL \<notin> set es"
    by auto
  from p1 p2 p3 p4 k1 k2 eq show ?thesis by (simp only: simp_thms)
qed

section \<open>ensureRunning\<close>

text \<open>
  C8. \<^verbatim>\<open>ensureRunning\<close> makes one request, with the timer \<open>min 3000 requestTimeoutMs\<close>. When
  it is answered below 500, \<^verbatim>\<open>ensureRunning\<close> returns in the world that request left: no
  file has changed and the request is the only effect. When it is not and \<open>enabled\<close> is
  false, it throws "unreachable and serverManagement.enabled is false" in that same world.
  When it is not and \<open>enabled\<close> is true, it is \<^verbatim>\<open>start\<close> run in that world.
\<close>

theorem ensureRunning_cases:
  "(below_500 (fetch_outcome h (tick w) (replace_trailing_slashes url) (min 3000 t)) \<longrightarrow>
      ensureRunning fuel h s url t w =
        (Return (), emit (HttpGet (replace_trailing_slashes url) (min 3000 t)) w))
   \<and> (\<not> below_500 (fetch_outcome h (tick w) (replace_trailing_slashes url) (min 3000 t))
        \<and> \<not> enabled s \<longrightarrow>
      ensureRunning fuel h s url t w =
        (Throw UnreachableAndDisabled, emit (HttpGet (replace_trailing_slashes url) (min 3000 t)) w))
   \<and> (\<not> below_500 (fetch_outcome h (tick w) (replace_trailing_slashes url) (min 3000 t))
        \<and> enabled s \<longrightarrow>
      ensureRunning fuel h s url t w =
        start fuel h s url (emit (HttpGet (replace_trailing_slashes url) (min 3000 t)) w))
   \<and> files (emit (HttpGet (replace_trailing_slashes url) (min 3000 t)) w) = files w
   \<and> effects (emit (HttpGet (replace_trailing_slashes url) (min 3000 t)) w)
        = effects w @ [HttpGet (replace_trailing_slashes url) (min 3000 t)]"
  by (simp add: ensureRunning_def andThen_def pingTranslationServer_eq ret_def throw_def)

theorem ensureRunning_cases_witness:
  "ensureRunning 3 (reference_host (answers 200) nobody (clock_every 1000)) reference_settings
      ''http://localhost:1969'' 30000 fresh_world
     = (Return (), emit (HttpGet ''http://localhost:1969'' 3000) fresh_world)
   \<and> ensureRunning 3 (reference_host no_answer nobody (clock_every 1000)) disabled_settings
      ''http://localhost:1969'' 30000 fresh_world
     = (Throw UnreachableAndDisabled, emit (HttpGet ''http://localhost:1969'' 3000) fresh_world)
   \<and> ensureRunning 3 (reference_host no_answer nobody (clock_every 1000)) reference_settings
      ''http://localhost:1969'' 30000 fresh_world
     = start 3 (reference_host no_answer nobody (clock_every 1000)) reference_settings
        ''http://localhost:1969'' (emit (HttpGet ''http://localhost:1969'' 3000) fresh_world)"
proof -
  let ?url = "''http://localhost:1969''"
  have a: "below_500 (fetch_outcome (reference_host (answers 200) nobody (clock_every 1000))
      (tick fresh_world) (replace_trailing_slashes ?url) (min 3000 30000))"
    by (simp add: answers_def below_500_def)
  have b: "\<not> below_500 (fetch_outcome (reference_host no_answer nobody (clock_every 1000))
      (tick fresh_world) (replace_trailing_slashes ?url) (min 3000 30000))"
    by (simp add: no_answer_def below_500_def)
  have off: "\<not> enabled disabled_settings" by (simp add: disabled_settings_def)
  have on: "enabled reference_settings" by simp
  from a ensureRunning_cases [where h = "reference_host (answers 200) nobody (clock_every 1000)"
      and w = fresh_world and url = ?url and t = 30000 and fuel = 3 and s = reference_settings]
  have one: "ensureRunning 3 (reference_host (answers 200) nobody (clock_every 1000))
      reference_settings ?url 30000 fresh_world
      = (Return (), emit (HttpGet ?url 3000) fresh_world)"
    by simp
  from b off ensureRunning_cases [where h = "reference_host no_answer nobody (clock_every 1000)"
      and w = fresh_world and url = ?url and t = 30000 and fuel = 3 and s = disabled_settings]
  have two: "ensureRunning 3 (reference_host no_answer nobody (clock_every 1000))
      disabled_settings ?url 30000 fresh_world
      = (Throw UnreachableAndDisabled, emit (HttpGet ?url 3000) fresh_world)"
    by simp
  from b on ensureRunning_cases [where h = "reference_host no_answer nobody (clock_every 1000)"
      and w = fresh_world and url = ?url and t = 30000 and fuel = 3 and s = reference_settings]
  have three: "ensureRunning 3 (reference_host no_answer nobody (clock_every 1000))
      reference_settings ?url 30000 fresh_world
      = start 3 (reference_host no_answer nobody (clock_every 1000)) reference_settings ?url
          (emit (HttpGet ?url 3000) fresh_world)"
    by simp
  from one two three show ?thesis by (simp only: simp_thms)
qed

section \<open>The life of the record file\<close>




end
